theory Spec2Isabelle
  imports Complex_Main "HOL-Library.Sublist" "HOL-Library.Word"
begin

section \<open>The depth-reprojection vertex shader\<close>

text \<open>
  The GLSL program \<^verbatim>\<open>vertexShader\<close> of \<^verbatim>\<open>kinect-scene\<close>. GLSL leaves the precision
  of a \<^verbatim>\<open>float\<close> to the device, so a \<^verbatim>\<open>float\<close> is taken as a real number: the
  arithmetic of the shader model is exact, rounding, infinities and NaN are not part
  of it. A \<^verbatim>\<open>vec4\<close> is a tuple, a \<^verbatim>\<open>mat4\<close> is the tuple of its
  four rows, and the \<^verbatim>\<open>sampler2D\<close> is the function from a texture coordinate to the
  colour \<^verbatim>\<open>texture2D\<close> returns there.
\<close>

type_synonym vec2 = "real \<times> real"
type_synonym vec3 = "real \<times> real \<times> real"
type_synonym vec4 = "real \<times> real \<times> real \<times> real"
type_synonym mat4 = "vec4 \<times> vec4 \<times> vec4 \<times> vec4"
type_synonym sampler2D = "vec2 \<Rightarrow> vec4"

record uniforms =
  width :: real
  height :: real
  nearClipping :: real
  farClipping :: real
  pointSize :: real
  zOffset :: real
  circleRadius :: real

record vertex_out =
  vUv :: vec2
  gl_PointSize :: real
  gl_Position :: vec4

definition XtoZ :: real where
  "XtoZ = 1.11146"

definition YtoZ :: real where
  "YtoZ = 0.83359"

text \<open>The GLSL built-in \<^verbatim>\<open>distance\<close> on \<^verbatim>\<open>vec2\<close>.\<close>

definition distance :: "vec2 \<Rightarrow> vec2 \<Rightarrow> real" where
  "distance p q = sqrt ((fst p - fst q)\<^sup>2 + (snd p - snd q)\<^sup>2)"

definition dot4 :: "vec4 \<Rightarrow> vec4 \<Rightarrow> real" where
  "dot4 a b =
     (case a of (a0, a1, a2, a3) \<Rightarrow> case b of (b0, b1, b2, b3) \<Rightarrow>
        a0 * b0 + a1 * b1 + a2 * b2 + a3 * b3)"

text \<open>\<^verbatim>\<open>mat4 * vec4\<close> and \<^verbatim>\<open>mat4 * mat4\<close>.\<close>

definition mulMV :: "mat4 \<Rightarrow> vec4 \<Rightarrow> vec4" where
  "mulMV m v =
     (case m of (r0, r1, r2, r3) \<Rightarrow> (dot4 r0 v, dot4 r1 v, dot4 r2 v, dot4 r3 v))"

definition column :: "mat4 \<Rightarrow> nat \<Rightarrow> vec4" where
  "column m k =
     (let pick = (\<lambda>r. case r of (c0, c1, c2, c3) \<Rightarrow>
                    if k = 0 then c0 else if k = 1 then c1 else if k = 2 then c2 else c3)
      in case m of (r0, r1, r2, r3) \<Rightarrow> (pick r0, pick r1, pick r2, pick r3))"

definition mulMM :: "mat4 \<Rightarrow> mat4 \<Rightarrow> mat4" where
  "mulMM a b =
     (let row = (\<lambda>r. (dot4 r (column b 0), dot4 r (column b 1),
                       dot4 r (column b 2), dot4 r (column b 3)))
      in case a of (r0, r1, r2, r3) \<Rightarrow> (row r0, row r1, row r2, row r3))"

text \<open>
  The three local values of \<^verbatim>\<open>main\<close>:
  \<^verbatim>\<open>float depth = ( color.r + color.g + color.b ) / 3.0;\<close>
  \<^verbatim>\<open>float z = ( 1.0 - depth ) * (farClipping - nearClipping) + nearClipping;\<close>
  \<^verbatim>\<open>vec4 pos = vec4( ( position.x / width - 0.5 ) * z * XtoZ,
                   ( position.y / height - 0.5 ) * z * YtoZ, - z + zOffset, 1.0 );\<close>
\<close>

definition depth :: "vec4 \<Rightarrow> real" where
  "depth color = (case color of (r, g, b, a) \<Rightarrow> (r + g + b) / 3)"

definition z_of :: "real \<Rightarrow> real \<Rightarrow> real \<Rightarrow> real" where
  "z_of near far d = (1 - d) * (far - near) + near"

definition pos :: "uniforms \<Rightarrow> vec3 \<Rightarrow> real \<Rightarrow> vec4" where
  "pos u position z =
     (case position of (px, py, pz) \<Rightarrow>
        ((px / width u - 0.5) * z * XtoZ,
         (py / height u - 0.5) * z * YtoZ,
         - z + zOffset u,
         1))"

text \<open>
  \<^verbatim>\<open>void main()\<close>: the varying and the two outputs it writes, from the uniforms, the
  texture bound to \<^verbatim>\<open>map\<close>, the two matrices and the vertex attribute \<^verbatim>\<open>position\<close>.
\<close>

definition vertexShader ::
  "uniforms \<Rightarrow> sampler2D \<Rightarrow> mat4 \<Rightarrow> mat4 \<Rightarrow> vec3 \<Rightarrow> vertex_out" where
  "vertexShader u map_tex projectionMatrix modelViewMatrix position =
     (case position of (px, py, pz) \<Rightarrow>
        let uv = (px / width u, py / height u) in
        if distance uv (0.5, 0.5) > circleRadius u
        then \<lparr>vUv = uv, gl_PointSize = 0, gl_Position = (0, 0, 0, 1)\<rparr>
        else
          let color = map_tex uv;
              z = z_of (nearClipping u) (farClipping u) (depth color)
          in \<lparr>vUv = uv,
              gl_PointSize = pointSize u,
              gl_Position = mulMV (mulMM projectionMatrix modelViewMatrix) (pos u position z)\<rparr>)"

text \<open>
  The ranges the control panel (\<^verbatim>\<open>useControls\<close>) declares for the five numeric
  uniforms it feeds.
\<close>

definition controlRange :: "uniforms \<Rightarrow> bool" where
  "controlRange u \<longleftrightarrow>
     1 \<le> nearClipping u \<and> nearClipping u \<le> 10000 \<and>
     1 \<le> farClipping u \<and> farClipping u \<le> 10000 \<and>
     1 \<le> pointSize u \<and> pointSize u \<le> 10 \<and>
     0 \<le> zOffset u \<and> zOffset u \<le> 4000 \<and>
     0 \<le> circleRadius u \<and> circleRadius u \<le> 0.7"


section \<open>The point grid\<close>

text \<open>
  The vertex buffer built once inside \<^verbatim>\<open>useMemo\<close>. A \<^verbatim>\<open>Float32Array\<close> is a list of
  reals, created zero-filled; the values stored here are natural numbers below
  \<open>2\<^sup>2\<^sup>4\<close>, which a 32-bit float holds exactly. A store past the end of a typed array
  is ignored, as a list update past the end is. The loop
  \<^verbatim>\<open>for (let i = 0, j = 0, l = vertices.length; i < l; i += 3, j++)\<close>
  is the recursion \<open>gridLoop\<close> on \<open>i\<close> and \<open>j\<close>.
\<close>

function gridLoop :: "nat \<Rightarrow> nat \<Rightarrow> nat \<Rightarrow> nat \<Rightarrow> real list \<Rightarrow> real list" where
  "gridLoop w l i j vertices =
     (if i < l
      then gridLoop w l (i + 3) (j + 1)
             ((vertices[i := real (j mod w)])[i + 1 := of_int \<lfloor>real j / real w\<rfloor>])
      else vertices)"
  by pat_completeness auto
termination
  by (relation "measure (\<lambda>(w, l, i, j, vertices). l - i)") auto

declare gridLoop.simps [simp del]

definition gridVertices :: "nat \<Rightarrow> nat \<Rightarrow> real list" where
  "gridVertices w h =
     (let vertices = replicate (w * h * 3) 0
      in gridLoop w (length vertices) 0 0 vertices)"

text \<open>The constants of the source: \<^verbatim>\<open>const width = 640\<close>, \<^verbatim>\<open>const height = 480\<close>.\<close>

definition geometry_position :: "real list" where
  "geometry_position = gridVertices 640 480"

text \<open>
  \<^verbatim>\<open>new THREE.BufferAttribute(vertices, 3)\<close> reads the array as entries of three
  components: \<open>attributeCount\<close> entries, entry \<open>j\<close> at the indices \<open>3 j\<close>, \<open>3 j + 1\<close>
  and \<open>3 j + 2\<close>.
\<close>

definition attributeCount :: "real list \<Rightarrow> nat" where
  "attributeCount array = length array div 3"

definition getXYZ :: "real list \<Rightarrow> nat \<Rightarrow> vec3" where
  "getXYZ array j = (array ! (j * 3), array ! (j * 3 + 1), array ! (j * 3 + 2))"

section \<open>Strings\<close>

text \<open>
  A JavaScript string is its sequence of UTF-16 code units. \<open>lit\<close> embeds an ASCII
  literal; the Russian literals of the source are written out by code unit.
\<close>

type_synonym jsstring = "16 word list"

definition lit :: "string \<Rightarrow> jsstring" where
  "lit s = map of_char s"

text \<open>The decimal digits of a natural number, as a template literal prints it.\<close>

fun numberToString :: "nat \<Rightarrow> jsstring" where
  "numberToString n =
     (if n < 10 then [of_nat (48 + n)]
      else numberToString (n div 10) @ [of_nat (48 + n mod 10)])"

declare numberToString.simps [simp del]

text \<open>
  The three fixed parts of the template literal of \<^verbatim>\<open>handleVideoError\<close> (line 170):
  before the code, between the code and the message, after the message.
\<close>

definition msgLoadFailed_1 :: jsstring where
  "msgLoadFailed_1 =
     [0x41D, 0x435, 0x20, 0x443, 0x434, 0x430, 0x43B, 0x43E, 0x441, 0x44C, 0x20, 0x437,
      0x430, 0x433, 0x440, 0x443, 0x437, 0x438, 0x442, 0x44C, 0x20, 0x432, 0x438, 0x434,
      0x435, 0x43E, 0x2E, 0x20, 0x41A, 0x43E, 0x434, 0x20, 0x43E, 0x448, 0x438, 0x431,
      0x43A, 0x438, 0x3A, 0x20]"

definition msgLoadFailed_2 :: jsstring where
  "msgLoadFailed_2 =
     [0x2E, 0x20, 0x421, 0x43E, 0x43E, 0x431, 0x449, 0x435, 0x43D, 0x438, 0x435, 0x3A,
      0x20]"

definition msgLoadFailed_3 :: jsstring where
  "msgLoadFailed_3 =
     [0x20, 0x41F, 0x43E, 0x43F, 0x440, 0x43E, 0x431, 0x443, 0x439, 0x442, 0x435, 0x20,
      0x43A, 0x43B, 0x438, 0x43A, 0x43D, 0x443, 0x442, 0x44C, 0x20, 0x43F, 0x43E, 0x20,
      0x44D, 0x43A, 0x440, 0x430, 0x43D, 0x443, 0x2E]"

text \<open>The two fallbacks of line 170 (\<^verbatim>\<open>|| '...'\<close>): "unknown" and "no message.".\<close>

definition msgUnknown :: jsstring where
  "msgUnknown = [0x43D, 0x435, 0x438, 0x437, 0x432, 0x435, 0x441, 0x442, 0x43D, 0x43E]"

definition msgNoMessage :: jsstring where
  "msgNoMessage =
     [0x41D, 0x435, 0x442, 0x20, 0x441, 0x43E, 0x43E, 0x431, 0x449, 0x435, 0x43D, 0x438,
      0x44F, 0x2E]"

text \<open>
  The message of line 204: "autoplay is blocked. Click anywhere on the screen to
  start."
\<close>

definition msgAutoplayBlocked :: jsstring where
  "msgAutoplayBlocked =
     [0x410, 0x432, 0x442, 0x43E, 0x432, 0x43E, 0x441, 0x43F, 0x440, 0x43E, 0x438, 0x437,
      0x432, 0x435, 0x434, 0x435, 0x43D, 0x438, 0x435, 0x20, 0x437, 0x430, 0x431, 0x43B,
      0x43E, 0x43A, 0x438, 0x440, 0x43E, 0x432, 0x430, 0x43D, 0x43E, 0x2E, 0x20, 0x41A,
      0x43B, 0x438, 0x43A, 0x43D, 0x438, 0x442, 0x435, 0x20, 0x432, 0x20, 0x43B, 0x44E,
      0x431, 0x43E, 0x43C, 0x20, 0x43C, 0x435, 0x441, 0x442, 0x435, 0x20, 0x44D, 0x43A,
      0x440, 0x430, 0x43D, 0x430, 0x20, 0x434, 0x43B, 0x44F, 0x20, 0x437, 0x430, 0x43F,
      0x443, 0x441, 0x43A, 0x430, 0x2E]"

text \<open>
  The fixed start of the template literal of line 220: "the video could not be played
  even after the click. Error: ".
\<close>

definition msgClickFailed_1 :: jsstring where
  "msgClickFailed_1 =
     [0x41D, 0x435, 0x20, 0x443, 0x434, 0x430, 0x43B, 0x43E, 0x441, 0x44C, 0x20, 0x432,
      0x43E, 0x441, 0x43F, 0x440, 0x43E, 0x438, 0x437, 0x432, 0x435, 0x441, 0x442, 0x438,
      0x20, 0x432, 0x438, 0x434, 0x435, 0x43E, 0x20, 0x434, 0x430, 0x436, 0x435, 0x20,
      0x43F, 0x43E, 0x441, 0x43B, 0x435, 0x20, 0x43A, 0x43B, 0x438, 0x43A, 0x430, 0x2E,
      0x20, 0x41E, 0x448, 0x438, 0x431, 0x43A, 0x430, 0x3A, 0x20]"

section \<open>JavaScript numbers\<close>

text \<open>
  A JavaScript number is an IEEE 754 double. The model keeps the finite doubles as the
  real numbers they denote, and every arithmetic operation of the frame callback and of
  the mouse listener rounds its exact result to the nearest double, ties to the even
  significand: \<open>binary64\<close>. A double has a significand of 53 bits; the exponent of the
  leading bit is at least \<open>- 1022\<close>, below that the doubles are evenly spaced
  (subnormal). Results beyond the largest double (infinities) and NaN are not part of
  the model.
\<close>

definition roundEven :: "real \<Rightarrow> int" where
  "roundEven y =
     (let f = \<lfloor>y\<rfloor>; r = y - of_int f
      in if r < 1 / 2 then f else if 1 / 2 < r then f + 1 else if even f then f else f + 1)"

definition exponent64 :: "real \<Rightarrow> int" where
  "exponent64 x = max \<lfloor>log 2 x\<rfloor> (- 1022)"

definition ulp64 :: "real \<Rightarrow> real" where
  "ulp64 x = 2 powr of_int (exponent64 x - 52)"

definition round64_pos :: "real \<Rightarrow> real" where
  "round64_pos x = of_int (roundEven (x / ulp64 x)) * ulp64 x"

definition binary64 :: "real \<Rightarrow> real" where
  "binary64 x =
     (if x = 0 then 0 else if 0 < x then round64_pos x else - round64_pos (- x))"

text \<open>
  A value is a double when rounding leaves it as it is. The bound keeps the sums and
  differences of two such values below the largest double.
\<close>

definition double :: "real \<Rightarrow> bool" where
  "double x \<longleftrightarrow> binary64 x = x \<and> \<bar>x\<bar> \<le> 2 ^ 1022"

section \<open>The scene component\<close>

text \<open>
  The state \<^verbatim>\<open>KinectScene\<close> owns or touches: its two React state variables, its refs,
  the camera, the listeners on \<^verbatim>\<open>document\<close>, whether the video element is a child of
  \<^verbatim>\<open>document.body\<close>, and the number of calls of \<^verbatim>\<open>video.play()\<close> made so far.
  Console output is not modelled.
\<close>

datatype texture_filter =
  NearestFilter | NearestMipmapNearestFilter | NearestMipmapLinearFilter
| LinearFilter | LinearMipmapNearestFilter | LinearMipmapLinearFilter

record texture =
  minFilter :: texture_filter
  magFilter :: texture_filter
  generateMipmaps :: bool
  disposed :: bool

text \<open>
  The four functions the component registers as event listeners. The model follows one
  mount of the component: each effect runs once, and the promise of the first
  \<^verbatim>\<open>play()\<close> settles once, so there is one closure of each function and a constructor
  names it.
\<close>

datatype listener =
  L_handleVideoError | L_handleVideoPlay | L_playOnClick | L_handleMouseMove

type_synonym listeners = "(string \<times> listener) list"

text \<open>
  An event target holds a listener for an event type at most once:
  \<^verbatim>\<open>addEventListener\<close> ignores a pair that is already there, and
  \<^verbatim>\<open>removeEventListener\<close> leaves none behind.
\<close>

definition addEventListener :: "string \<Rightarrow> listener \<Rightarrow> listeners \<Rightarrow> listeners" where
  "addEventListener type h ls = (if (type, h) \<in> set ls then ls else ls @ [(type, h)])"

definition removeEventListener :: "string \<Rightarrow> listener \<Rightarrow> listeners \<Rightarrow> listeners" where
  "removeEventListener type h ls = removeAll (type, h) ls"

text \<open>\<^verbatim>\<open>video.error\<close>, a \<^verbatim>\<open>MediaError\<close>: an unsigned code and a message.\<close>

record media_error =
  code :: nat
  message :: jsstring

text \<open>
  The video element: the properties the effect sets, the two the browser changes
  (\<^verbatim>\<open>paused\<close>, \<^verbatim>\<open>error\<close>) and the listeners on it.
\<close>

record video_element =
  src :: string
  loop :: bool
  muted :: bool
  crossOrigin :: "string option"
  playsInline :: bool
  style_display :: string
  paused :: bool
  error :: "media_error option"
  video_listeners :: listeners

text \<open>\<^verbatim>\<open>document.createElement('video')\<close>: a paused element with no source and no error.\<close>

definition createElement_video :: video_element where
  "createElement_video =
     \<lparr>src = '''', loop = False, muted = False, crossOrigin = None, playsInline = False,
      style_display = '''', paused = True, error = None, video_listeners = []\<rparr>"

text \<open>
  The value of \<^verbatim>\<open>material.uniforms.map\<close>: \<^verbatim>\<open>null\<close>, or a reference to the texture
  object that \<^verbatim>\<open>textureRef.current\<close> holds.
\<close>

datatype uniform_map = MapNull | MapVideoTexture

text \<open>The value a rejected \<^verbatim>\<open>play()\<close> promise carries; its \<^verbatim>\<open>message\<close> may be undefined.\<close>

record js_exception =
  exn_message :: "jsstring option"

text \<open>
  The error the reconciler of the canvas throws for an element that is no three.js
  object.
\<close>

datatype js_error = NotInNamespace

record scene =
  videoLoadError :: "jsstring option"
  videoPlaying :: bool
  videoRef :: "video_element option"
  textureRef :: "texture option"
  material_map :: uniform_map
  material_uniforms :: uniforms
  mouseRef :: vec3
  centerRef :: vec3
  camera_position :: vec3
  camera_lookAt :: "vec3 option"
  document_listeners :: listeners
  body_contains_video :: bool
  play_calls :: nat

text \<open>
  The uniforms the material is created with (lines 136 to 146; the texture and the
  tint colour are not part of the record).
\<close>

definition materialUniforms :: uniforms where
  "materialUniforms =
     \<lparr>width = 640, height = 480, nearClipping = 850, farClipping = 4000, pointSize = 2,
      zOffset = 1000, circleRadius = 0.5\<rparr>"

text \<open>
  The component before its effects have run: the initial values of \<^verbatim>\<open>useState\<close> and
  \<^verbatim>\<open>useRef\<close>, and the camera position the page gives the canvas.
\<close>

definition initialScene :: scene where
  "initialScene =
     \<lparr>videoLoadError = None, videoPlaying = False, videoRef = None, textureRef = None,
      material_map = MapNull, material_uniforms = materialUniforms,
      mouseRef = (0, 0, 1), centerRef = (0, 0, -1000),
      camera_position = (0, 0, 500), camera_lookAt = None,
      document_listeners = [], body_contains_video = False, play_calls = 0\<rparr>"

subsection \<open>The video effect\<close>

definition videoURL :: string where
  "videoURL = ''https://hebbkx1anhila5yf.public.blob.vercel-storage.com/testMovie-nJSNfpIuLib3BkQoMi5t2libqPSPui.mp4''"

text \<open>
  The synchronous part of the effect (lines 160 to 194). \<open>newVideoTexture\<close> is the
  object \<^verbatim>\<open>new THREE.VideoTexture(video)\<close> returns: the constructor belongs to the
  library, so its result is a parameter. The material has a \<^verbatim>\<open>map\<close> uniform, so the
  guard of line 190 holds. The last line is the call \<^verbatim>\<open>video.play()\<close>, which returns
  a promise; what the promise does next is one of \<open>initialPlay_then\<close> and
  \<open>initialPlay_catch\<close>.
\<close>

definition videoEffect_setup :: "texture \<Rightarrow> scene \<Rightarrow> scene" where
  "videoEffect_setup newVideoTexture s =
     (let video = createElement_video
            \<lparr>src := videoURL, loop := True, muted := True,
             crossOrigin := Some ''anonymous'', playsInline := True,
             style_display := ''none''\<rparr>;
          video = video
            \<lparr>video_listeners :=
               addEventListener ''play'' L_handleVideoPlay
                 (addEventListener ''error'' L_handleVideoError (video_listeners video))\<rparr>;
          t = newVideoTexture\<lparr>minFilter := NearestFilter, generateMipmaps := False\<rparr>
      in s\<lparr>body_contains_video := True,
           videoRef := Some video,
           textureRef := Some t,
           material_map := MapVideoTexture,
           play_calls := play_calls s + 1\<rparr>)"

text \<open>
  \<^verbatim>\<open>handleVideoError\<close>. The element \<^verbatim>\<open>video\<close> of the closure is the one
  \<^verbatim>\<open>videoRef.current\<close> holds: line 183 stores it and nothing reassigns the ref.
  \<^verbatim>\<open>video.error?.code || '...'\<close> falls back when there is no error object or the code
  is 0, \<^verbatim>\<open>video.error?.message || '...'\<close> when there is none or the message is empty.
\<close>

definition video_error :: "scene \<Rightarrow> media_error option" where
  "video_error s = (case videoRef s of None \<Rightarrow> None | Some v \<Rightarrow> error v)"

definition handleVideoError :: "scene \<Rightarrow> scene" where
  "handleVideoError s =
     (let codeText =
            (case video_error s of
               None \<Rightarrow> msgUnknown
             | Some e \<Rightarrow> if code e = 0 then msgUnknown else numberToString (code e));
          messageText =
            (case video_error s of
               None \<Rightarrow> msgNoMessage
             | Some e \<Rightarrow> if message e = [] then msgNoMessage else message e)
      in s\<lparr>videoLoadError :=
             Some (msgLoadFailed_1 @ codeText @ msgLoadFailed_2 @ messageText
                   @ msgLoadFailed_3),
           videoPlaying := False\<rparr>)"

definition handleVideoPlay :: "scene \<Rightarrow> scene" where
  "handleVideoPlay s = s\<lparr>videoPlaying := True, videoLoadError := None\<rparr>"

text \<open>The two callbacks on the promise of the first \<^verbatim>\<open>video.play()\<close> (lines 197 to 224).\<close>

definition initialPlay_then :: "scene \<Rightarrow> scene" where
  "initialPlay_then s = s\<lparr>videoPlaying := True, videoLoadError := None\<rparr>"

definition initialPlay_catch :: "js_exception \<Rightarrow> scene \<Rightarrow> scene" where
  "initialPlay_catch err s =
     s\<lparr>videoLoadError := Some msgAutoplayBlocked,
       videoPlaying := False,
       document_listeners := addEventListener ''click'' L_playOnClick (document_listeners s)\<rparr>"

text \<open>
  \<^verbatim>\<open>playOnClick\<close> (lines 206 to 222), up to its call of \<^verbatim>\<open>play()\<close>. With a null
  \<^verbatim>\<open>videoRef.current\<close> the optional chain \<^verbatim>\<open>videoRef.current?.play().then(...).catch(...)\<close>
  is skipped as a whole: nothing is called and nothing is thrown. No branch throws; the
  result is a sum because a listener may throw. The two callbacks on the promise
  follow.
\<close>

definition playOnClick :: "scene \<Rightarrow> js_error + scene" where
  "playOnClick s =
     (case videoRef s of
        None \<Rightarrow> Inr s
      | Some v \<Rightarrow>
          if \<not> paused v
          then Inr (s\<lparr>document_listeners :=
                        removeEventListener ''click'' L_playOnClick (document_listeners s)\<rparr>)
          else Inr (s\<lparr>play_calls := play_calls s + 1\<rparr>))"

definition playOnClick_then :: "scene \<Rightarrow> scene" where
  "playOnClick_then s =
     s\<lparr>videoPlaying := True,
       videoLoadError := None,
       document_listeners := removeEventListener ''click'' L_playOnClick (document_listeners s)\<rparr>"

definition playOnClick_catch :: "js_exception \<Rightarrow> scene \<Rightarrow> scene" where
  "playOnClick_catch clickError s =
     (let messageText =
            (case exn_message clickError of
               None \<Rightarrow> msgUnknown
             | Some m \<Rightarrow> if m = [] then msgUnknown else m)
      in s\<lparr>videoLoadError := Some (msgClickFailed_1 @ messageText @ lit ''.'')\<rparr>)"

text \<open>The function the effect returns (lines 227 to 236).\<close>

definition videoEffect_cleanup :: "scene \<Rightarrow> scene" where
  "videoEffect_cleanup s =
     (let s1 =
            (case videoRef s of
               None \<Rightarrow> s
             | Some v \<Rightarrow>
                 if body_contains_video s
                 then s\<lparr>videoRef := Some (v\<lparr>video_listeners :=
                            removeEventListener ''play'' L_handleVideoPlay
                              (removeEventListener ''error'' L_handleVideoError
                                 (video_listeners v))\<rparr>),
                        body_contains_video := False\<rparr>
                 else s)
      in case textureRef s1 of
           None \<Rightarrow> s1
         | Some t \<Rightarrow> s1\<lparr>textureRef := Some (t\<lparr>disposed := True\<rparr>)\<rparr>)"

subsection \<open>The other effects and the frame callback\<close>

text \<open>
  The effect that copies the control values into the uniforms (lines 240 to 252). The
  control values come as a record of the same shape; \<open>width\<close> and \<open>height\<close> are not
  controls and stay as they are. The guards of the effect hold whenever it runs: the
  points object is rendered with the material before any effect runs, and the
  material has uniforms.
\<close>

definition uniformsEffect :: "uniforms \<Rightarrow> scene \<Rightarrow> scene" where
  "uniformsEffect controls s =
     s\<lparr>material_uniforms := (material_uniforms s)
         \<lparr>nearClipping := nearClipping controls,
          farClipping := farClipping controls,
          pointSize := pointSize controls,
          zOffset := zOffset controls,
          circleRadius := circleRadius controls\<rparr>\<rparr>"

text \<open>The mouse effect (lines 255 to 263): its setup, its listener, its cleanup.\<close>

definition mouseEffect_setup :: "scene \<Rightarrow> scene" where
  "mouseEffect_setup s =
     s\<lparr>document_listeners :=
         addEventListener ''mousemove'' L_handleMouseMove (document_listeners s)\<rparr>"

definition handleMouseMove :: "real \<Rightarrow> real \<Rightarrow> real \<times> real \<Rightarrow> scene \<Rightarrow> scene" where
  "handleMouseMove innerWidth innerHeight event s =
     (case event of (clientX, clientY) \<Rightarrow>
      case mouseRef s of (mx, my, mz) \<Rightarrow>
        s\<lparr>mouseRef :=
            (binary64 (binary64 (clientX - binary64 (innerWidth / 2)) * 8),
             binary64 (binary64 (clientY - binary64 (innerHeight / 2)) * 8),
             mz)\<rparr>)"

definition mouseEffect_cleanup :: "scene \<Rightarrow> scene" where
  "mouseEffect_cleanup s =
     s\<lparr>document_listeners :=
         removeEventListener ''mousemove'' L_handleMouseMove (document_listeners s)\<rparr>"

text \<open>
  The callback of \<^verbatim>\<open>useFrame\<close> (lines 266 to 271). The literal \<^verbatim>\<open>0.01\<close> is the double
  nearest to one hundredth. \<open>ease\<close> is the right-hand side of
  \<^verbatim>\<open>c += (t - c) * 0.01\<close>: a difference, a product and a sum, each rounded. The unary
  minus of \<^verbatim>\<open>-mouseRef.current.y\<close> is exact.
\<close>

definition ease :: "real \<Rightarrow> real \<Rightarrow> real" where
  "ease c t = binary64 (c + binary64 (binary64 (t - c) * binary64 (1 / 100)))"

definition useFrame :: "scene \<Rightarrow> scene" where
  "useFrame s =
     (case camera_position s of (cx, cy, cz) \<Rightarrow>
      case mouseRef s of (mx, my, mz) \<Rightarrow>
        let cx' = ease cx mx;
            cy' = ease cy (- my)
        in s\<lparr>camera_position := (cx', cy', cz), camera_lookAt := Some (centerRef s)\<rparr>)"

subsection \<open>Mounting, events, rendering, unmounting\<close>

text \<open>
  Mounting runs the three effects in the order the component declares them.
  Unmounting runs their cleanups; the effect of the uniforms has none.
\<close>

definition mount :: "texture \<Rightarrow> uniforms \<Rightarrow> scene" where
  "mount newVideoTexture controls =
     mouseEffect_setup (uniformsEffect controls (videoEffect_setup newVideoTexture initialScene))"

definition unmount :: "scene \<Rightarrow> scene" where
  "unmount s = mouseEffect_cleanup (videoEffect_cleanup s)"

text \<open>
  An event reaches a listener only while the listener is registered on the target.
  Each event type has at most one listener in this component.
\<close>

definition document_click :: "scene \<Rightarrow> js_error + scene" where
  "document_click s =
     (if (''click'', L_playOnClick) \<in> set (document_listeners s)
      then playOnClick s else Inr s)"

definition video_fires_error :: "scene \<Rightarrow> scene" where
  "video_fires_error s =
     (case videoRef s of
        None \<Rightarrow> s
      | Some v \<Rightarrow>
          if (''error'', L_handleVideoError) \<in> set (video_listeners v)
          then handleVideoError s else s)"

definition video_fires_play :: "scene \<Rightarrow> scene" where
  "video_fires_play s =
     (case videoRef s of
        None \<Rightarrow> s
      | Some v \<Rightarrow>
          if (''play'', L_handleVideoPlay) \<in> set (video_listeners v)
          then handleVideoPlay s else s)"

text \<open>
  What the browser does to the element on its own: it sets \<^verbatim>\<open>video.error\<close>, and it
  pauses or starts the video.
\<close>

definition browser_sets_error :: "media_error \<Rightarrow> scene \<Rightarrow> scene" where
  "browser_sets_error e s =
     (case videoRef s of
        None \<Rightarrow> s
      | Some v \<Rightarrow> s\<lparr>videoRef := Some (v\<lparr>error := Some e\<rparr>)\<rparr>)"

definition browser_sets_paused :: "bool \<Rightarrow> scene \<Rightarrow> scene" where
  "browser_sets_paused b s =
     (case videoRef s of
        None \<Rightarrow> s
      | Some v \<Rightarrow> s\<lparr>videoRef := Some (v\<lparr>paused := b\<rparr>)\<rparr>)"

text \<open>
  What the component returns (lines 273 to 284): the background colour, the
  environment, the points, and, when \<^verbatim>\<open>videoLoadError\<close> is a non-empty string, a
  \<^verbatim>\<open>div\<close> holding a \<^verbatim>\<open>p\<close> with that string.
\<close>

datatype jsx = Host string "jsx list" | Component string | TextNode jsstring

definition render :: "scene \<Rightarrow> jsx list" where
  "render s =
     [Host ''color'' [], Component ''Environment'', Host ''points'' []]
     @ (case videoLoadError s of
          None \<Rightarrow> []
        | Some m \<Rightarrow> if m = [] then [] else [Host ''div'' [Host ''p'' [TextNode m]]])"

fun hostTypes :: "jsx \<Rightarrow> string list" where
  "hostTypes (Host name children) = name # concat (map hostTypes children)"
| "hostTypes (Component name) = []"
| "hostTypes (TextNode m) = []"

fun textNodes :: "jsx \<Rightarrow> jsstring list" where
  "textNodes (Host name children) = concat (map textNodes children)"
| "textNodes (Component name) = []"
| "textNodes (TextNode m) = [m]"

text \<open>
  The page renders the component inside the canvas (\<^verbatim>\<open>Index\<close>, lines 8 to 19), so its
  elements go to the reconciler of the canvas, which makes three.js objects: it creates
  a host element only when three.js has a class of that name, and throws otherwise.
  Of the element types the component returns, three.js has \<^verbatim>\<open>Color\<close> and \<^verbatim>\<open>Points\<close>;
  it has no \<^verbatim>\<open>Div\<close> and no \<^verbatim>\<open>P\<close>. A commit that throws shows nothing of the tree.
\<close>

definition in_THREE_namespace :: "string \<Rightarrow> bool" where
  "in_THREE_namespace name \<longleftrightarrow> name = ''color'' \<or> name = ''points''"

definition commit :: "jsx list \<Rightarrow> js_error + jsx list" where
  "commit tree =
     (if list_all in_THREE_namespace (concat (map hostTypes tree))
      then Inr tree else Inl NotInNamespace)"

text \<open>
  The text of the overlay on the screen: the text inside the committed tree, if the
  commit went through and the tree has one.
\<close>

definition overlay :: "scene \<Rightarrow> jsstring option" where
  "overlay s =
     (case commit (render s) of
        Inl e \<Rightarrow> None
      | Inr tree \<Rightarrow>
          (case concat (map textNodes tree) of [] \<Rightarrow> None | m # ms \<Rightarrow> Some m))"

text \<open>
  The control values of \<^verbatim>\<open>useControls\<close> before the user touches the panel, and the
  \<^verbatim>\<open>VideoTexture\<close> three.js constructs: its constructor sets both filters to
  \<^verbatim>\<open>LinearFilter\<close> unless told otherwise and turns mipmap generation off.
\<close>

definition controlDefaults :: uniforms where
  "controlDefaults =
     \<lparr>width = 640, height = 480, nearClipping = 850, farClipping = 4000, pointSize = 2,
      zOffset = 1000, circleRadius = 0.7\<rparr>"

definition newVideoTexture_default :: texture where
  "newVideoTexture_default =
     \<lparr>minFilter = LinearFilter, magFilter = LinearFilter, generateMipmaps = False,
      disposed = False\<rparr>"
section \<open>Properties of the vertex shader\<close>

lemma z_of_diff: "z_of near far d2 - z_of near far d1 = (d1 - d2) * (far - near)"
  by (simp add: z_of_def algebra_simps)

text \<open>
  C1 (as amended). The depth of a texture sample is the mean of its three colour
  channels. A sample of depth 0 is mapped to \<open>z = farClipping\<close> and one of depth 1 to
  \<open>z = nearClipping\<close>, whatever the two uniforms are. When
  \<open>nearClipping \<le> farClipping\<close> a brighter sample is never farther than a darker one,
  and when \<open>nearClipping < farClipping\<close> a strictly brighter sample is strictly nearer.
\<close>

theorem depth_mapping_decreasing:
  "depth (r, g, b, a) = (r + g + b) / 3 \<and>
   z_of near far 0 = far \<and>
   z_of near far 1 = near \<and>
   (near \<le> far \<longrightarrow> depth c1 \<le> depth c2 \<longrightarrow>
      z_of near far (depth c2) \<le> z_of near far (depth c1)) \<and>
   (near < far \<longrightarrow> depth c1 < depth c2 \<longrightarrow>
      z_of near far (depth c2) < z_of near far (depth c1))"
proof -
  have mono: "z_of near far (depth c2) \<le> z_of near far (depth c1)"
    if "near \<le> far" "depth c1 \<le> depth c2"
  proof -
    have "(depth c1 - depth c2) * (far - near) \<le> 0"
      using that by (simp add: mult_nonpos_nonneg)
    then show ?thesis
      using z_of_diff [of near far "depth c2" "depth c1"] by simp
  qed
  have strict: "z_of near far (depth c2) < z_of near far (depth c1)"
    if "near < far" "depth c1 < depth c2"
  proof -
    have "(depth c1 - depth c2) * (far - near) < 0"
      using that by (simp add: mult_neg_pos)
    then show ?thesis
      using z_of_diff [of near far "depth c2" "depth c1"] by simp
  qed
  show ?thesis
    using mono strict by (simp add: depth_def z_of_def)
qed

theorem depth_mapping_decreasing_witness:
  "(850::real) < 4000 \<and> depth (0, 0, 0, 1) < depth (1, 1, 1, 1) \<and>
   z_of 850 4000 (depth (0, 0, 0, 1)) = 4000 \<and>
   z_of 850 4000 (depth (1, 1, 1, 1)) = 850 \<and>
   z_of 850 4000 (depth (1, 1, 1, 1)) < z_of 850 4000 (depth (0, 0, 0, 1))"
  using depth_mapping_decreasing [of 0 0 0 1 850 4000 "(0, 0, 0, 1)" "(1, 1, 1, 1)"]
  by (simp add: depth_def z_of_def)

text \<open>
  C1 as stated fails: with \<open>nearClipping = 4000\<close> and \<open>farClipping = 850\<close>, both inside
  the ranges of the control panel, the black sample is nearer than the white one.
\<close>

theorem depth_mapping_not_decreasing:
  "z_of 4000 850 (depth (0, 0, 0, 1)) < z_of 4000 850 (depth (1, 1, 1, 1))"
  by (simp add: depth_def z_of_def)

text \<open>
  These two clipping values are inside the ranges of the control panel, and the effect
  of the uniforms hands them to the shader as they are.
\<close>

lemma inverted_clipping_reachable:
  "controlRange (controlDefaults\<lparr>nearClipping := 4000, farClipping := 850\<rparr>) \<and>
   nearClipping (material_uniforms
     (uniformsEffect (controlDefaults\<lparr>nearClipping := 4000, farClipping := 850\<rparr>) s)) = 4000 \<and>
   farClipping (material_uniforms
     (uniformsEffect (controlDefaults\<lparr>nearClipping := 4000, farClipping := 850\<rparr>) s)) = 850"
  by (simp add: controlRange_def controlDefaults_def uniformsEffect_def)

lemma culled_output:
  assumes "distance (px / width u, py / height u) (0.5, 0.5) > circleRadius u"
  shows "vertexShader u map_tex P MV (px, py, pz) =
           \<lparr>vUv = (px / width u, py / height u), gl_PointSize = 0,
            gl_Position = (0, 0, 0, 1)\<rparr>"
  using assms by (simp add: vertexShader_def)

lemma kept_output:
  assumes "\<not> distance (px / width u, py / height u) (0.5, 0.5) > circleRadius u"
  shows "vertexShader u map_tex P MV (px, py, pz) =
           \<lparr>vUv = (px / width u, py / height u), gl_PointSize = pointSize u,
            gl_Position = mulMV (mulMM P MV)
              (pos u (px, py, pz)
                 (z_of (nearClipping u) (farClipping u)
                    (depth (map_tex (px / width u, py / height u)))))\<rparr>"
  using assms by (simp add: vertexShader_def Let_def)

lemma half_less_sqrt_half: "(1 / 2 :: real) < sqrt (1 / 2)"
  by (rule real_less_rsqrt) (simp add: power2_eq_square)

text \<open>
  C3. A vertex whose texture coordinate \<open>(x / width, y / height)\<close> lies farther than
  \<open>circleRadius\<close> from \<open>(0.5, 0.5)\<close> gets point size 0 and the position
  \<open>(0, 0, 0, 1)\<close>, and the whole output is the same for any two textures. Any other
  vertex gets the point size of the uniform, and its position is the product of the
  two matrices applied to
  \<open>((x / width - 0.5) * z * XtoZ, (y / height - 0.5) * z * YtoZ, - z + zOffset, 1)\<close>,
  where \<open>z\<close> is the depth mapping of the texture sample at that coordinate.
\<close>

theorem vertex_culled_or_positioned:
  "(distance (px / width u, py / height u) (0.5, 0.5) > circleRadius u \<longrightarrow>
      gl_PointSize (vertexShader u t1 P MV (px, py, pz)) = 0 \<and>
      gl_Position (vertexShader u t1 P MV (px, py, pz)) = (0, 0, 0, 1) \<and>
      vertexShader u t1 P MV (px, py, pz) = vertexShader u t2 P MV (px, py, pz)) \<and>
   (\<not> distance (px / width u, py / height u) (0.5, 0.5) > circleRadius u \<longrightarrow>
      gl_PointSize (vertexShader u t1 P MV (px, py, pz)) = pointSize u \<and>
      gl_Position (vertexShader u t1 P MV (px, py, pz)) =
        (let z = (1 - depth (t1 (px / width u, py / height u)))
                   * (farClipping u - nearClipping u) + nearClipping u
         in mulMV (mulMM P MV)
              ((px / width u - 0.5) * z * XtoZ,
               (py / height u - 0.5) * z * YtoZ,
               - z + zOffset u,
               1)))"
proof (intro conjI impI)
  assume far: "distance (px / width u, py / height u) (0.5, 0.5) > circleRadius u"
  show "gl_PointSize (vertexShader u t1 P MV (px, py, pz)) = 0"
    by (simp add: culled_output [OF far])
  show "gl_Position (vertexShader u t1 P MV (px, py, pz)) = (0, 0, 0, 1)"
    by (simp add: culled_output [OF far])
  show "vertexShader u t1 P MV (px, py, pz) = vertexShader u t2 P MV (px, py, pz)"
    by (simp add: culled_output [OF far])
next
  assume near: "\<not> distance (px / width u, py / height u) (0.5, 0.5) > circleRadius u"
  show "gl_PointSize (vertexShader u t1 P MV (px, py, pz)) = pointSize u"
    by (simp add: kept_output [OF near])
  show "gl_Position (vertexShader u t1 P MV (px, py, pz)) =
        (let z = (1 - depth (t1 (px / width u, py / height u)))
                   * (farClipping u - nearClipping u) + nearClipping u
         in mulMV (mulMM P MV)
              ((px / width u - 0.5) * z * XtoZ,
               (py / height u - 0.5) * z * YtoZ,
               - z + zOffset u,
               1))"
    by (simp only: kept_output [OF near] vertex_out.simps pos_def z_of_def Let_def prod.case)
qed

text \<open>
  The witness runs the shader with the uniforms the material is created with
  (640 by 480, clipping 850 to 4000, point size 2, offset 1000, radius 0.5) and
  identity matrices: the corner vertex \<open>(0, 0)\<close> is culled, the centre vertex
  \<open>(320, 240)\<close> of a white frame is placed at \<open>(0, 0, 150, 1)\<close>.
\<close>

theorem vertex_culled_or_positioned_witness:
  "distance (0 / 640, 0 / 480) (0.5, 0.5) > 0.5 \<and>
   gl_PointSize (vertexShader
      \<lparr>width = 640, height = 480, nearClipping = 850, farClipping = 4000,
       pointSize = 2, zOffset = 1000, circleRadius = 0.5\<rparr>
      (\<lambda>uv. (1, 1, 1, 1))
      ((1, 0, 0, 0), (0, 1, 0, 0), (0, 0, 1, 0), (0, 0, 0, 1))
      ((1, 0, 0, 0), (0, 1, 0, 0), (0, 0, 1, 0), (0, 0, 0, 1))
      (0, 0, 0)) = 0 \<and>
   \<not> distance (320 / 640, 240 / 480) (0.5, 0.5) > 0.5 \<and>
   gl_Position (vertexShader
      \<lparr>width = 640, height = 480, nearClipping = 850, farClipping = 4000,
       pointSize = 2, zOffset = 1000, circleRadius = 0.5\<rparr>
      (\<lambda>uv. (1, 1, 1, 1))
      ((1, 0, 0, 0), (0, 1, 0, 0), (0, 0, 1, 0), (0, 0, 0, 1))
      ((1, 0, 0, 0), (0, 1, 0, 0), (0, 0, 1, 0), (0, 0, 0, 1))
      (320, 240, 0)) = (0, 0, 150, 1)"
proof -
  let ?u = "\<lparr>width = 640, height = 480, nearClipping = 850, farClipping = 4000,
             pointSize = 2, zOffset = 1000, circleRadius = 0.5\<rparr>"
  let ?I = "((1, 0, 0, 0), (0, 1, 0, 0), (0, 0, 1, 0), (0, 0, 0, 1)) :: mat4"
  have far: "distance (0 / 640, 0 / 480) (0.5, 0.5) > 0.5"
    using half_less_sqrt_half by (simp add: distance_def power2_eq_square)
  have near: "\<not> distance (320 / 640, 240 / 480) (0.5, 0.5) > 0.5"
    by (simp add: distance_def)
  have a: "gl_PointSize (vertexShader ?u (\<lambda>uv. (1, 1, 1, 1)) ?I ?I (0, 0, 0)) = 0"
    using far vertex_culled_or_positioned
      [where px = 0 and py = 0 and pz = 0 and u = ?u and ?t1.0 = "\<lambda>uv. (1, 1, 1, 1)"
         and P = ?I and MV = ?I]
    by simp
  have b: "gl_Position (vertexShader ?u (\<lambda>uv. (1, 1, 1, 1)) ?I ?I (320, 240, 0))
             = (0, 0, 150, 1)"
    using near vertex_culled_or_positioned
      [where px = 320 and py = 240 and pz = 0 and u = ?u and ?t1.0 = "\<lambda>uv. (1, 1, 1, 1)"
         and P = ?I and MV = ?I]
    by (simp add: depth_def mulMV_def mulMM_def column_def dot4_def Let_def)
  show ?thesis
    using far near a b by blast
qed

text \<open>
  C10. The shader has no test on the two clipping uniforms: for any values of them, a
  vertex that is not culled is placed with \<open>z\<close> equal to the depth formula of its
  texture sample. So when the two uniforms are equal every sample gives
  \<open>z = nearClipping\<close> and two textures place the vertex at the same position, and when
  \<open>farClipping < nearClipping\<close> a strictly brighter sample gives a strictly greater \<open>z\<close>.
\<close>

theorem depth_mapping_unguarded:
  "\<not> distance (px / width u, py / height u) (0.5, 0.5) > circleRadius u \<longrightarrow>
   (let uv = (px / width u, py / height u);
        z1 = (1 - depth (t1 uv)) * (farClipping u - nearClipping u) + nearClipping u;
        z2 = (1 - depth (t2 uv)) * (farClipping u - nearClipping u) + nearClipping u
    in gl_Position (vertexShader u t1 P MV (px, py, pz)) =
         mulMV (mulMM P MV)
           ((px / width u - 0.5) * z1 * XtoZ, (py / height u - 0.5) * z1 * YtoZ,
            - z1 + zOffset u, 1) \<and>
       gl_Position (vertexShader u t2 P MV (px, py, pz)) =
         mulMV (mulMM P MV)
           ((px / width u - 0.5) * z2 * XtoZ, (py / height u - 0.5) * z2 * YtoZ,
            - z2 + zOffset u, 1) \<and>
       (farClipping u = nearClipping u \<longrightarrow>
          z1 = nearClipping u \<and> z2 = nearClipping u \<and>
          gl_Position (vertexShader u t1 P MV (px, py, pz)) =
            gl_Position (vertexShader u t2 P MV (px, py, pz))) \<and>
       (farClipping u < nearClipping u \<longrightarrow> depth (t1 uv) < depth (t2 uv) \<longrightarrow> z1 < z2))"
proof
  assume kept: "\<not> distance (px / width u, py / height u) (0.5, 0.5) > circleRadius u"
  define uv where "uv = (px / width u, py / height u)"
  define z1 where
    "z1 = (1 - depth (t1 uv)) * (farClipping u - nearClipping u) + nearClipping u"
  define z2 where
    "z2 = (1 - depth (t2 uv)) * (farClipping u - nearClipping u) + nearClipping u"
  have g1: "gl_Position (vertexShader u t1 P MV (px, py, pz)) =
         mulMV (mulMM P MV)
           ((px / width u - 0.5) * z1 * XtoZ, (py / height u - 0.5) * z1 * YtoZ,
            - z1 + zOffset u, 1)"
    by (simp only: kept_output [OF kept] vertex_out.simps pos_def z_of_def prod.case
        z1_def uv_def)
  have g2: "gl_Position (vertexShader u t2 P MV (px, py, pz)) =
         mulMV (mulMM P MV)
           ((px / width u - 0.5) * z2 * XtoZ, (py / height u - 0.5) * z2 * YtoZ,
            - z2 + zOffset u, 1)"
    by (simp only: kept_output [OF kept] vertex_out.simps pos_def z_of_def prod.case
        z2_def uv_def)
  have eq: "farClipping u = nearClipping u \<longrightarrow>
          z1 = nearClipping u \<and> z2 = nearClipping u \<and>
          gl_Position (vertexShader u t1 P MV (px, py, pz)) =
            gl_Position (vertexShader u t2 P MV (px, py, pz))"
  proof
    assume "farClipping u = nearClipping u"
    then have "z1 = nearClipping u" "z2 = nearClipping u"
      by (simp_all add: z1_def z2_def)
    then show "z1 = nearClipping u \<and> z2 = nearClipping u \<and>
          gl_Position (vertexShader u t1 P MV (px, py, pz)) =
            gl_Position (vertexShader u t2 P MV (px, py, pz))"
      by (simp add: g1 g2)
  qed
  have inv: "farClipping u < nearClipping u \<longrightarrow> depth (t1 uv) < depth (t2 uv) \<longrightarrow> z1 < z2"
  proof (intro impI)
    assume "farClipping u < nearClipping u" "depth (t1 uv) < depth (t2 uv)"
    then have "(depth (t2 uv) - depth (t1 uv)) * (farClipping u - nearClipping u) < 0"
      by (simp add: mult_pos_neg)
    then show "z1 < z2"
      using z_of_diff [of "nearClipping u" "farClipping u" "depth (t1 uv)" "depth (t2 uv)"]
      by (simp add: z1_def z2_def z_of_def)
  qed
  show "let uv = (px / width u, py / height u);
        z1 = (1 - depth (t1 uv)) * (farClipping u - nearClipping u) + nearClipping u;
        z2 = (1 - depth (t2 uv)) * (farClipping u - nearClipping u) + nearClipping u
    in gl_Position (vertexShader u t1 P MV (px, py, pz)) =
         mulMV (mulMM P MV)
           ((px / width u - 0.5) * z1 * XtoZ, (py / height u - 0.5) * z1 * YtoZ,
            - z1 + zOffset u, 1) \<and>
       gl_Position (vertexShader u t2 P MV (px, py, pz)) =
         mulMV (mulMM P MV)
           ((px / width u - 0.5) * z2 * XtoZ, (py / height u - 0.5) * z2 * YtoZ,
            - z2 + zOffset u, 1) \<and>
       (farClipping u = nearClipping u \<longrightarrow>
          z1 = nearClipping u \<and> z2 = nearClipping u \<and>
          gl_Position (vertexShader u t1 P MV (px, py, pz)) =
            gl_Position (vertexShader u t2 P MV (px, py, pz))) \<and>
       (farClipping u < nearClipping u \<longrightarrow> depth (t1 uv) < depth (t2 uv) \<longrightarrow> z1 < z2)"
    unfolding Let_def
    using g1 g2 eq inv unfolding z1_def z2_def uv_def by blast
qed

text \<open>
  The witness runs the shader on the centre vertex with identity matrices, a black and
  a white frame. With \<open>nearClipping = 4000\<close> and \<open>farClipping = 850\<close> the black frame
  is placed with \<open>z = 850\<close> and the white one with \<open>z = 4000\<close>; with both uniforms at
  850 both frames are placed with \<open>z = 850\<close>.
\<close>

theorem depth_mapping_unguarded_witness:
  "\<not> distance (320 / 640, 240 / 480) (0.5, 0.5) > 0.5 \<and>
   (850 :: real) < 4000 \<and>
   depth (0, 0, 0, 1) < depth (1, 1, 1, 1) \<and>
   gl_Position (vertexShader
      \<lparr>width = 640, height = 480, nearClipping = 4000, farClipping = 850,
       pointSize = 2, zOffset = 1000, circleRadius = 0.5\<rparr>
      (\<lambda>uv. (0, 0, 0, 1))
      ((1, 0, 0, 0), (0, 1, 0, 0), (0, 0, 1, 0), (0, 0, 0, 1))
      ((1, 0, 0, 0), (0, 1, 0, 0), (0, 0, 1, 0), (0, 0, 0, 1))
      (320, 240, 0)) = (0, 0, 150, 1) \<and>
   gl_Position (vertexShader
      \<lparr>width = 640, height = 480, nearClipping = 4000, farClipping = 850,
       pointSize = 2, zOffset = 1000, circleRadius = 0.5\<rparr>
      (\<lambda>uv. (1, 1, 1, 1))
      ((1, 0, 0, 0), (0, 1, 0, 0), (0, 0, 1, 0), (0, 0, 0, 1))
      ((1, 0, 0, 0), (0, 1, 0, 0), (0, 0, 1, 0), (0, 0, 0, 1))
      (320, 240, 0)) = (0, 0, - 3000, 1) \<and>
   gl_Position (vertexShader
      \<lparr>width = 640, height = 480, nearClipping = 850, farClipping = 850,
       pointSize = 2, zOffset = 1000, circleRadius = 0.5\<rparr>
      (\<lambda>uv. (0, 0, 0, 1))
      ((1, 0, 0, 0), (0, 1, 0, 0), (0, 0, 1, 0), (0, 0, 0, 1))
      ((1, 0, 0, 0), (0, 1, 0, 0), (0, 0, 1, 0), (0, 0, 0, 1))
      (320, 240, 0)) = (0, 0, 150, 1) \<and>
   gl_Position (vertexShader
      \<lparr>width = 640, height = 480, nearClipping = 850, farClipping = 850,
       pointSize = 2, zOffset = 1000, circleRadius = 0.5\<rparr>
      (\<lambda>uv. (1, 1, 1, 1))
      ((1, 0, 0, 0), (0, 1, 0, 0), (0, 0, 1, 0), (0, 0, 0, 1))
      ((1, 0, 0, 0), (0, 1, 0, 0), (0, 0, 1, 0), (0, 0, 0, 1))
      (320, 240, 0)) = (0, 0, 150, 1)"
proof -
  let ?inv = "\<lparr>width = 640, height = 480, nearClipping = 4000, farClipping = 850,
               pointSize = 2, zOffset = 1000, circleRadius = 0.5\<rparr>"
  let ?eq = "\<lparr>width = 640, height = 480, nearClipping = 850, farClipping = 850,
              pointSize = 2, zOffset = 1000, circleRadius = 0.5\<rparr>"
  let ?I = "((1, 0, 0, 0), (0, 1, 0, 0), (0, 0, 1, 0), (0, 0, 0, 1)) :: mat4"
  let ?black = "\<lambda>uv :: vec2. (0, 0, 0, 1) :: vec4"
  let ?white = "\<lambda>uv :: vec2. (1, 1, 1, 1) :: vec4"
  have kept: "\<not> distance (320 / 640, 240 / 480) (0.5, 0.5) > 0.5"
    by (simp add: distance_def)
  have lt: "depth (0, 0, 0, 1) < depth (1, 1, 1, 1)"
    by (simp add: depth_def)
  have i: "gl_Position (vertexShader ?inv ?black ?I ?I (320, 240, 0)) = (0, 0, 150, 1) \<and>
           gl_Position (vertexShader ?inv ?white ?I ?I (320, 240, 0)) = (0, 0, - 3000, 1)"
    using kept depth_mapping_unguarded
      [where u = ?inv and px = 320 and py = 240 and pz = 0 and ?t1.0 = ?black
         and ?t2.0 = ?white and P = ?I and MV = ?I]
    by (simp add: depth_def mulMV_def mulMM_def column_def dot4_def Let_def)
  have e: "gl_Position (vertexShader ?eq ?black ?I ?I (320, 240, 0)) = (0, 0, 150, 1) \<and>
           gl_Position (vertexShader ?eq ?white ?I ?I (320, 240, 0)) = (0, 0, 150, 1)"
    using kept depth_mapping_unguarded
      [where u = ?eq and px = 320 and py = 240 and pz = 0 and ?t1.0 = ?black
         and ?t2.0 = ?white and P = ?I and MV = ?I]
    by (simp add: depth_def mulMV_def mulMM_def column_def dot4_def Let_def)
  show ?thesis
    using kept lt i e by simp
qed


section \<open>Properties of the point grid\<close>

lemma gridLoop_length: "length (gridLoop w l i j vs) = length vs"
proof (induction w l i j vs rule: gridLoop.induct)
  case (1 w l i j vs)
  show ?case
    using 1 by (subst gridLoop.simps) simp
qed

text \<open>
  What the loop leaves at index \<open>p\<close> when it starts at \<open>i = 3 k\<close>: the entries below
  \<open>i\<close> and every third component are untouched, the other two components hold the
  column and the row of the running counter.
\<close>

lemma gridLoop_nth:
  assumes "p < length vs" "length vs = l"
  shows "gridLoop w l (3 * k) j vs ! p =
           (if p < 3 * k then vs ! p
            else if p mod 3 = 0 then real ((j + (p div 3 - k)) mod w)
            else if p mod 3 = 1 then real ((j + (p div 3 - k)) div w)
            else vs ! p)"
  using assms
proof (induction w l "3 * k" j vs arbitrary: k rule: gridLoop.induct)
  case (1 w l j vs)
  show ?case
  proof (cases "3 * k < l")
    case False
    with 1(2,3) show ?thesis
      by (subst gridLoop.simps) simp
  next
    case True
    let ?vs = "(vs[3 * k := real (j mod w)])[3 * k + 1 := real (j div w)]"
    have fl: "real_of_int \<lfloor>real j / real w\<rfloor> = real (j div w)"
      by (simp add: floor_divide_of_nat_eq)
    have step: "gridLoop w l (3 * k) j vs = gridLoop w l (3 * Suc k) (j + 1) ?vs"
      using True by (subst gridLoop.simps) (simp add: fl ac_simps)
    have IH: "gridLoop w l (3 * Suc k) (j + 1) ?vs ! p =
           (if p < 3 * Suc k then ?vs ! p
            else if p mod 3 = 0 then real ((j + 1 + (p div 3 - Suc k)) mod w)
            else if p mod 3 = 1 then real ((j + 1 + (p div 3 - Suc k)) div w)
            else ?vs ! p)"
      using 1(1) [of "Suc k"] True 1(2,3) by (simp add: fl)
    show ?thesis
    proof (cases "p < 3 * k")
      case True
      then show ?thesis unfolding step IH by simp
    next
      case False
      note ge = this
      show ?thesis
      proof (cases "p < 3 * Suc k")
        case True
        then have "p = 3 * k \<or> p = 3 * k + 1 \<or> p = 3 * k + 2"
          using ge by arith
        then consider "p = 3 * k" | "p = 3 * k + 1" | "p = 3 * k + 2"
          by blast
        then show ?thesis
        proof cases
          case 1
          then show ?thesis
            unfolding step IH using \<open>3 * k < l\<close> \<open>length vs = l\<close> by simp
        next
          case 2
          then show ?thesis
            unfolding step IH using \<open>3 * k < l\<close> \<open>p < length vs\<close> \<open>length vs = l\<close> by simp
        next
          case 3
          have "Suc (Suc (3 * k)) mod 3 = 2" by presburger
          with 3 show ?thesis
            unfolding step IH using \<open>p < length vs\<close> \<open>length vs = l\<close> by simp
        qed
      next
        case False
        then have "Suc k \<le> p div 3" by presburger
        then have e: "j + 1 + (p div 3 - Suc k) = j + (p div 3 - k)" by simp
        show ?thesis unfolding step IH e using False ge by simp
      qed
    qed
  qed
qed

lemma gridLoop_nth0:
  assumes "p < length vs"
  shows "gridLoop w (length vs) 0 0 vs ! p =
           (if p mod 3 = 0 then real ((p div 3) mod w)
            else if p mod 3 = 1 then real ((p div 3) div w)
            else vs ! p)"
  using gridLoop_nth [OF assms refl, of w 0 0] by simp

lemma gridVertices_length: "length (gridVertices w h) = w * h * 3"
  by (simp add: gridVertices_def gridLoop_length Let_def)

lemma gridVertices_entry:
  assumes "j < w * h"
  shows "getXYZ (gridVertices w h) j = (real (j mod w), real (j div w), 0)"
proof -
  let ?vs = "replicate (w * h * 3) (0::real)"
  have a: "j * 3 < length ?vs" "j * 3 + 1 < length ?vs" "j * 3 + 2 < length ?vs"
    using assms by simp_all
  have g: "gridVertices w h = gridLoop w (length ?vs) 0 0 ?vs"
    by (simp add: gridVertices_def Let_def)
  have m: "(j * 3) mod 3 = 0" "(j * 3 + 1) mod 3 = 1" "(j * 3 + 2) mod 3 = 2"
    "(j * 3) div 3 = j" "(j * 3 + 1) div 3 = j" "(j * 3 + 2) div 3 = j"
    by presburger+
  have x: "gridVertices w h ! (j * 3) = real (j mod w)"
    unfolding g gridLoop_nth0 [OF a(1)] m by simp
  have y: "gridVertices w h ! (j * 3 + 1) = real (j div w)"
    unfolding g gridLoop_nth0 [OF a(2)] m by simp
  have z: "gridVertices w h ! (j * 3 + 2) = 0"
    unfolding g gridLoop_nth0 [OF a(3)] m using a(3) by simp
  show ?thesis
    unfolding getXYZ_def x y z ..
qed

text \<open>
  C2. The buffer built for width 640 and height 480 has \<open>640 \<times> 480 \<times> 3\<close> components,
  that is \<open>640 \<times> 480\<close> entries of three, and for every \<open>j\<close> below \<open>640 \<times> 480\<close> entry
  \<open>j\<close> is \<open>(j mod 640, j div 640, 0)\<close>. The buffer is a constant: it depends on nothing
  but the two dimensions.
\<close>

theorem point_grid_640_480:
  "length geometry_position = 640 * 480 * 3 \<and>
   attributeCount geometry_position = 640 * 480 \<and>
   geometry_position = gridVertices 640 480 \<and>
   (j < 640 * 480 \<longrightarrow>
      getXYZ geometry_position j = (real (j mod 640), real (j div 640), 0))"
proof (intro conjI impI)
  show "length geometry_position = 640 * 480 * 3"
    unfolding geometry_position_def by (rule gridVertices_length)
  then show "attributeCount geometry_position = 640 * 480"
    by (simp add: attributeCount_def)
  show "geometry_position = gridVertices 640 480"
    by (rule geometry_position_def)
next
  assume "j < 640 * 480"
  then show "getXYZ geometry_position j = (real (j mod 640), real (j div 640), 0)"
    unfolding geometry_position_def by (rule gridVertices_entry)
qed

theorem point_grid_640_480_witness:
  "(1000::nat) < 640 * 480 \<and> getXYZ geometry_position 1000 = (360, 1, 0)"
  using point_grid_640_480 [of 1000] by simp

section \<open>Properties of the rounding\<close>

lemma roundEven_split:
  obtains (down) "roundEven y = \<lfloor>y\<rfloor>" "y - of_int \<lfloor>y\<rfloor> \<le> 1 / 2"
  | (up) "roundEven y = \<lfloor>y\<rfloor> + 1" "1 / 2 \<le> y - of_int \<lfloor>y\<rfloor>"
  unfolding roundEven_def Let_def
  by (cases "y - of_int \<lfloor>y\<rfloor> < 1 / 2"; cases "1 / 2 < y - of_int \<lfloor>y\<rfloor>"; cases "even \<lfloor>y\<rfloor>") simp_all

lemma roundEven_cases: "roundEven y = \<lfloor>y\<rfloor> \<or> roundEven y = \<lfloor>y\<rfloor> + 1"
  by (cases y rule: roundEven_split) simp_all

lemma roundEven_upper: "of_int (roundEven y) \<le> y + 1 / 2"
proof (cases y rule: roundEven_split)
  case down
  have "of_int \<lfloor>y\<rfloor> \<le> y" by simp
  with down show ?thesis by linarith
next
  case up
  then show ?thesis by simp
qed

lemma roundEven_lower: "y - 1 / 2 \<le> of_int (roundEven y)"
proof (cases y rule: roundEven_split)
  case down
  then show ?thesis by simp
next
  case up
  have "y < of_int \<lfloor>y\<rfloor> + 1" by linarith
  with up show ?thesis by linarith
qed

lemma roundEven_of_int: "roundEven (of_int n) = n"
  by (simp add: roundEven_def)

lemma roundEven_mono:
  assumes "y1 \<le> y2"
  shows "roundEven y1 \<le> roundEven y2"
proof (cases "\<lfloor>y1\<rfloor> = \<lfloor>y2\<rfloor>")
  case True
  with assms show ?thesis
    by (auto simp: roundEven_def Let_def)
next
  case False
  with assms have "\<lfloor>y1\<rfloor> + 1 \<le> \<lfloor>y2\<rfloor>"
    using floor_mono [OF assms] by linarith
  moreover have "roundEven y1 \<le> \<lfloor>y1\<rfloor> + 1" "\<lfloor>y2\<rfloor> \<le> roundEven y2"
    using roundEven_cases [of y1] roundEven_cases [of y2] by linarith+
  ultimately show ?thesis by linarith
qed

lemma roundEven_nonneg: "0 \<le> y \<Longrightarrow> 0 \<le> roundEven y"
  using roundEven_mono [of 0 y] roundEven_of_int [of 0] by simp

lemma roundEven_le_twice:
  assumes "0 \<le> y"
  shows "of_int (roundEven y) \<le> 2 * y"
proof (cases "y < 1 / 2")
  case True
  with assms have "\<lfloor>y\<rfloor> = 0" by linarith
  with True have "roundEven y = 0"
    by (simp add: roundEven_def)
  with assms show ?thesis by simp
next
  case False
  with roundEven_upper [of y] show ?thesis by linarith
qed

lemma ulp64_pos: "0 < ulp64 x"
  by (simp add: ulp64_def)

lemma round64_pos_nonneg: "0 \<le> x \<Longrightarrow> 0 \<le> round64_pos x"
  unfolding round64_pos_def
  using roundEven_nonneg [of "x / ulp64 x"] ulp64_pos [of x] by simp

lemma round64_pos_le_twice:
  assumes "0 \<le> x"
  shows "round64_pos x \<le> 2 * x"
proof -
  have "0 \<le> x / ulp64 x"
    using assms ulp64_pos [of x] by simp
  then have "of_int (roundEven (x / ulp64 x)) \<le> 2 * (x / ulp64 x)"
    by (rule roundEven_le_twice)
  then have "of_int (roundEven (x / ulp64 x)) * ulp64 x \<le> 2 * (x / ulp64 x) * ulp64 x"
    using ulp64_pos [of x] by (simp only: mult_le_cancel_right_pos)
  then show ?thesis
    using ulp64_pos [of x] by (simp add: round64_pos_def)
qed

lemma exponent64_mono: "0 < x \<Longrightarrow> x \<le> y \<Longrightarrow> exponent64 x \<le> exponent64 y"
  unfolding exponent64_def
  by (intro max.mono floor_mono order_refl) simp

lemma below_next_binade:
  assumes "0 < x"
  shows "x < 2 powr of_int (exponent64 x + 1)"
proof -
  have "log 2 x < of_int (\<lfloor>log 2 x\<rfloor> + 1)" by linarith
  also have "\<dots> \<le> of_int (exponent64 x + 1)"
    by (simp add: exponent64_def)
  finally have "2 powr log 2 x < 2 powr of_int (exponent64 x + 1)"
    by (simp only: powr_less_cancel_iff [of 2]) 
  then show ?thesis
    using assms by simp
qed

lemma above_binade:
  assumes "0 < y" "- 1022 < exponent64 y"
  shows "2 powr of_int (exponent64 y) \<le> y"
proof -
  have e: "exponent64 y = \<lfloor>log 2 y\<rfloor>"
    using assms(2) by (simp add: exponent64_def max_def split: if_splits)
  have "of_int \<lfloor>log 2 y\<rfloor> \<le> log 2 y" by simp
  then have "2 powr of_int \<lfloor>log 2 y\<rfloor> \<le> 2 powr log 2 y"
    by (simp only: powr_le_cancel_iff [of 2]) 
  then show ?thesis
    using assms(1) by (simp add: e)
qed

lemma round64_pos_below:
  assumes "0 < x"
  shows "round64_pos x \<le> 2 powr of_int (exponent64 x + 1)"
proof -
  have u: "ulp64 x * 2 powr 53 = 2 powr of_int (exponent64 x + 1)"
  proof -
    have "ulp64 x * 2 powr 53 = 2 powr (of_int (exponent64 x - 52) + 53)"
      unfolding ulp64_def by (simp only: powr_add)
    also have "of_int (exponent64 x - 52) + 53 = (of_int (exponent64 x + 1) :: real)"
      by simp
    finally show ?thesis .
  qed
  have "x / ulp64 x < 2 powr 53"
    using below_next_binade [OF assms] ulp64_pos [of x] u
    by (simp add: field_simps del: powr_numeral)
  then have "x / ulp64 x \<le> of_int (2 ^ 53)"
    by simp
  then have "roundEven (x / ulp64 x) \<le> 2 ^ 53"
    using roundEven_mono [of "x / ulp64 x" "of_int (2 ^ 53)"]
    by (simp only: roundEven_of_int)
  then have "of_int (roundEven (x / ulp64 x)) \<le> (2 powr 53 :: real)"
    by (simp add: of_int_le_iff [symmetric] del: of_int_le_iff)
  then have "of_int (roundEven (x / ulp64 x)) * ulp64 x \<le> 2 powr 53 * ulp64 x"
    using ulp64_pos [of x] by (simp only: mult_le_cancel_right_pos)
  then show ?thesis
    using u by (simp add: round64_pos_def mult.commute)
qed

lemma round64_pos_above:
  assumes "0 < y" "- 1022 < exponent64 y"
  shows "2 powr of_int (exponent64 y) \<le> round64_pos y"
proof -
  have u: "ulp64 y * 2 powr 52 = 2 powr of_int (exponent64 y)"
  proof -
    have "ulp64 y * 2 powr 52 = 2 powr (of_int (exponent64 y - 52) + 52)"
      unfolding ulp64_def by (simp only: powr_add)
    also have "of_int (exponent64 y - 52) + 52 = (of_int (exponent64 y) :: real)"
      by simp
    finally show ?thesis .
  qed
  have "2 powr 52 \<le> y / ulp64 y"
    using above_binade [OF assms] ulp64_pos [of y] u
    by (simp add: field_simps del: powr_numeral)
  then have "of_int (2 ^ 52) \<le> y / ulp64 y"
    by simp
  then have "2 ^ 52 \<le> roundEven (y / ulp64 y)"
    using roundEven_mono [of "of_int (2 ^ 52)" "y / ulp64 y"]
    by (simp only: roundEven_of_int)
  then have "(2 powr 52 :: real) \<le> of_int (roundEven (y / ulp64 y))"
    by (simp add: of_int_le_iff [symmetric] del: of_int_le_iff)
  then have "2 powr 52 * ulp64 y \<le> of_int (roundEven (y / ulp64 y)) * ulp64 y"
    using ulp64_pos [of y] by (simp only: mult_le_cancel_right_pos)
  then show ?thesis
    using u by (simp add: round64_pos_def mult.commute)
qed

lemma round64_pos_mono:
  assumes "0 < x" "x \<le> y"
  shows "round64_pos x \<le> round64_pos y"
proof (cases "exponent64 x = exponent64 y")
  case True
  then have u: "ulp64 x = ulp64 y"
    by (simp add: ulp64_def)
  have "x / ulp64 y \<le> y / ulp64 y"
    using assms(2) ulp64_pos [of y] by (simp add: divide_right_mono)
  then have "roundEven (x / ulp64 y) \<le> roundEven (y / ulp64 y)"
    by (rule roundEven_mono)
  then have "(of_int (roundEven (x / ulp64 y)) :: real) \<le> of_int (roundEven (y / ulp64 y))"
    by simp
  then show ?thesis
    unfolding round64_pos_def u
    using ulp64_pos [of y] by (simp only: mult_le_cancel_right_pos)
next
  case False
  have y: "0 < y" using assms by simp
  have lt: "exponent64 x < exponent64 y"
    using False exponent64_mono [OF assms] by simp
  have "- 1022 \<le> exponent64 x"
    by (simp add: exponent64_def)
  with lt have big: "- 1022 < exponent64 y" by simp
  have "round64_pos x \<le> 2 powr of_int (exponent64 x + 1)"
    using assms(1) by (rule round64_pos_below)
  also have "\<dots> \<le> 2 powr of_int (exponent64 y)"
    using lt by simp
  also have "\<dots> \<le> round64_pos y"
    using y big by (rule round64_pos_above)
  finally show ?thesis .
qed

lemma binary64_zero: "binary64 0 = 0"
  by (simp add: binary64_def)

lemma binary64_nonneg: "0 \<le> x \<Longrightarrow> 0 \<le> binary64 x"
  using round64_pos_nonneg [of x] by (simp add: binary64_def)

lemma binary64_nonpos: "x \<le> 0 \<Longrightarrow> binary64 x \<le> 0"
  using round64_pos_nonneg [of "- x"] by (simp add: binary64_def)

lemma binary64_le_twice: "0 \<le> x \<Longrightarrow> binary64 x \<le> 2 * x"
  using round64_pos_le_twice [of x] by (simp add: binary64_def)

lemma binary64_ge_twice: "x \<le> 0 \<Longrightarrow> 2 * x \<le> binary64 x"
  using round64_pos_le_twice [of "- x"] by (simp add: binary64_def)

lemma binary64_mono:
  assumes "x \<le> y"
  shows "binary64 x \<le> binary64 y"
proof -
  consider "0 < x" | "x \<le> 0" "0 \<le> y" | "y < 0"
    using assms by linarith
  then show ?thesis
  proof cases
    case 1
    with assms show ?thesis
      using round64_pos_mono [of x y] by (simp add: binary64_def)
  next
    case 2
    then show ?thesis
      using binary64_nonpos [of x] binary64_nonneg [of y] by linarith
  next
    case 3
    with assms have "0 < - y" "- y \<le> - x" by simp_all
    then have "round64_pos (- y) \<le> round64_pos (- x)"
      by (rule round64_pos_mono)
    with 3 assms show ?thesis
      by (simp add: binary64_def)
  qed
qed

text \<open>
  The value of \<open>binary64\<close> at a number whose binade is known.
\<close>

lemma binary64_eval:
  assumes "2 powr of_int e \<le> x" "x < 2 powr of_int (e + 1)" "- 1022 \<le> e"
  shows "binary64 x = of_int (roundEven (x / 2 powr of_int (e - 52))) * 2 powr of_int (e - 52)"
proof -
  have pos: "0 < x"
    using assms(1) powr_gt_zero [of 2 "of_int e"] by linarith
  have "\<lfloor>log 2 x\<rfloor> = e"
    using assms(1,2) pos by (simp add: floor_log_eq_powr_iff)
  then have "exponent64 x = e"
    using assms(3) by (simp add: exponent64_def)
  then show ?thesis
    using pos by (simp add: binary64_def round64_pos_def ulp64_def)
qed

text \<open>The double the literal \<^verbatim>\<open>0.01\<close> denotes.\<close>

lemma hundredth_value: "binary64 (1 / 100) = 5764607523034235 / 2 ^ 59"
proof -
  have "binary64 (1 / 100) =
      of_int (roundEven ((1 / 100) / 2 powr of_int (- 7 - 52))) * 2 powr of_int (- 7 - 52)"
    by (rule binary64_eval) (simp_all add: powr_minus)
  also have "2 powr of_int (- 7 - 52) = (1 / 2 ^ 59 :: real)"
    by (simp add: powr_minus inverse_eq_divide)
  also have "roundEven ((1 / 100) / (1 / 2 ^ 59)) = 5764607523034235"
    by (simp add: roundEven_def Let_def)
  finally show ?thesis by simp
qed


lemma binary64_minus: "binary64 (- x) = - binary64 x"
  by (simp add: binary64_def)

lemma binary64_hundredth: "0 \<le> binary64 (1 / 100)" "binary64 (1 / 100) \<le> 2 / 100"
  using binary64_nonneg [of "1 / 100"] binary64_le_twice [of "1 / 100"] by simp_all

lemma ease_up:
  assumes "binary64 c = c" "binary64 t = t" "c \<le> t"
  shows "c \<le> ease c t" "ease c t \<le> t"
proof -
  define a where "a = binary64 (t - c)"
  define k where "k = binary64 (1 / 100)"
  define b where "b = binary64 (a * k)"
  have a: "0 \<le> a" "a \<le> 2 * (t - c)"
    using assms(3) binary64_nonneg [of "t - c"] binary64_le_twice [of "t - c"]
    by (simp_all add: a_def)
  have k: "0 \<le> k" "k \<le> 2 / 100"
    using binary64_hundredth by (simp_all add: k_def)
  have "a * k \<le> (2 * (t - c)) * (2 / 100)"
    using a k assms(3) by (intro mult_mono) simp_all
  then have ak: "0 \<le> a * k" "a * k \<le> (4 / 100) * (t - c)"
    using a k by simp_all
  have b: "0 \<le> b" "b \<le> 2 * (a * k)"
    using ak(1) binary64_nonneg [of "a * k"] binary64_le_twice [of "a * k"]
    by (simp_all add: b_def)
  have "c \<le> c + b" "c + b \<le> t"
    using b ak(2) assms(3) by argo+
  then have "binary64 c \<le> binary64 (c + b)" "binary64 (c + b) \<le> binary64 t"
    by (simp_all only: binary64_mono)
  then show "c \<le> ease c t" "ease c t \<le> t"
    by (simp_all add: assms(1,2) ease_def a_def k_def b_def)
qed

lemma ease_down:
  assumes "binary64 c = c" "binary64 t = t" "t \<le> c"
  shows "t \<le> ease c t" "ease c t \<le> c"
proof -
  define a where "a = binary64 (t - c)"
  define k where "k = binary64 (1 / 100)"
  define b where "b = binary64 (a * k)"
  have a: "a \<le> 0" "2 * (t - c) \<le> a"
    using assms(3) binary64_nonpos [of "t - c"] binary64_ge_twice [of "t - c"]
    by (simp_all add: a_def)
  have k: "0 \<le> k" "k \<le> 2 / 100"
    using binary64_hundredth by (simp_all add: k_def)
  have "(- a) * k \<le> (2 * (c - t)) * (2 / 100)"
    using a k by (intro mult_mono) simp_all
  then have ak: "a * k \<le> 0" "(4 / 100) * (t - c) \<le> a * k"
    using a k by (simp_all add: mult_nonpos_nonneg)
  have b: "b \<le> 0" "2 * (a * k) \<le> b"
    using ak(1) binary64_nonpos [of "a * k"] binary64_ge_twice [of "a * k"]
    by (simp_all add: b_def)
  have "t \<le> c + b" "c + b \<le> c"
    using b ak(2) assms(3) by argo+
  then have "binary64 t \<le> binary64 (c + b)" "binary64 (c + b) \<le> binary64 c"
    by (simp_all only: binary64_mono)
  then show "t \<le> ease c t" "ease c t \<le> c"
    by (simp_all add: assms(1,2) ease_def a_def k_def b_def)
qed

text \<open>
  A frame that moves nothing: the camera at \<open>8 - 50 / 2\<^sup>5\<^sup>0\<close> (the double printed as
  7.999999999999956) with the target at 8. The difference is exact, its hundredth
  rounds to \<open>1 / 2\<^sup>5\<^sup>1\<close>, half the spacing of the doubles at the camera, and the sum
  rounds back to the even neighbour, the camera itself.
\<close>

lemma stall_a: "binary64 (8 - (8 - 50 / 2 ^ 50)) = 50 / 2 ^ 50"
proof -
  have "binary64 (50 / 2 ^ 50) =
      of_int (roundEven ((50 / 2 ^ 50) / 2 powr of_int (- 45 - 52))) * 2 powr of_int (- 45 - 52)"
    by (rule binary64_eval) (simp_all add: powr_minus)
  also have "2 powr of_int (- 45 - 52) = (1 / 2 ^ 97 :: real)"
    by (simp add: powr_minus inverse_eq_divide)
  also have "roundEven ((50 / 2 ^ 50) / (1 / 2 ^ 97)) = 50 * 2 ^ 47"
    by (simp add: roundEven_def Let_def)
  finally show ?thesis by simp
qed

lemma stall_b: "binary64 ((50 / 2 ^ 50) * (5764607523034235 / 2 ^ 59)) = 1 / 2 ^ 51"
proof -
  have "binary64 ((50 / 2 ^ 50) * (5764607523034235 / 2 ^ 59)) =
      of_int (roundEven (((50 / 2 ^ 50) * (5764607523034235 / 2 ^ 59)) / 2 powr of_int (- 51 - 52)))
        * 2 powr of_int (- 51 - 52)"
    by (rule binary64_eval) (simp_all add: powr_minus)
  also have "2 powr of_int (- 51 - 52) = (1 / 2 ^ 103 :: real)"
    by (simp add: powr_minus inverse_eq_divide)
  also have "roundEven (((50 / 2 ^ 50) * (5764607523034235 / 2 ^ 59)) / (1 / 2 ^ 103)) = 2 ^ 52"
    by (simp add: roundEven_def Let_def)
  finally show ?thesis by simp
qed

lemma stall_c: "binary64 ((8 - 50 / 2 ^ 50) + 1 / 2 ^ 51) = 8 - 50 / 2 ^ 50"
proof -
  have "binary64 ((8 - 50 / 2 ^ 50) + 1 / 2 ^ 51) =
      of_int (roundEven (((8 - 50 / 2 ^ 50) + 1 / 2 ^ 51) / 2 powr of_int (2 - 52)))
        * 2 powr of_int (2 - 52)"
    by (rule binary64_eval) (simp_all add: powr_minus)
  also have "2 powr of_int (2 - 52) = (1 / 2 ^ 50 :: real)"
    by (simp add: powr_minus inverse_eq_divide)
  also have "roundEven (((8 - 50 / 2 ^ 50) + 1 / 2 ^ 51) / (1 / 2 ^ 50)) = 2 ^ 53 - 50"
    by (simp add: roundEven_def Let_def)
  finally show ?thesis by simp
qed

lemma ease_stalls: "ease (8 - 50 / 2 ^ 50) 8 = 8 - 50 / 2 ^ 50"
  unfolding ease_def stall_a hundredth_value stall_b stall_c ..

section \<open>Properties of the camera ease\<close>

lemma double_0: "double 0"
  by (simp add: double_def binary64_zero)

lemma double_8: "double 8"
proof -
  have "binary64 8 = of_int (roundEven (8 / 2 powr of_int (3 - 52))) * 2 powr of_int (3 - 52)"
    by (rule binary64_eval) simp_all
  also have "2 powr of_int (3 - 52) = (1 / 2 ^ 49 :: real)"
    by (simp add: powr_minus inverse_eq_divide)
  also have "roundEven (8 / (1 / 2 ^ 49)) = 2 ^ 52"
    by (simp add: roundEven_def Let_def)
  finally show ?thesis by (simp add: double_def)
qed

lemma double_800: "double 800"
proof -
  have "binary64 800 = of_int (roundEven (800 / 2 powr of_int (9 - 52))) * 2 powr of_int (9 - 52)"
    by (rule binary64_eval) simp_all
  also have "2 powr of_int (9 - 52) = (1 / 2 ^ 43 :: real)"
    by (simp add: powr_minus inverse_eq_divide)
  also have "roundEven (800 / (1 / 2 ^ 43)) = 25 * 2 ^ 48"
    by (simp add: roundEven_def Let_def)
  finally show ?thesis by (simp add: double_def)
qed

lemma double_stalled: "double (8 - 50 / 2 ^ 50)"
proof -
  have "binary64 (8 - 50 / 2 ^ 50) =
      of_int (roundEven ((8 - 50 / 2 ^ 50) / 2 powr of_int (2 - 52))) * 2 powr of_int (2 - 52)"
    by (rule binary64_eval) (simp_all add: powr_minus)
  also have "2 powr of_int (2 - 52) = (1 / 2 ^ 50 :: real)"
    by (simp add: powr_minus inverse_eq_divide)
  also have "roundEven ((8 - 50 / 2 ^ 50) / (1 / 2 ^ 50)) = 2 ^ 53 - 50"
    by (simp add: roundEven_def Let_def)
  finally show ?thesis by (simp add: double_def)
qed

text \<open>A frame that moves: from 0 toward the target 800 the camera goes to 8.\<close>

lemma ease_moves: "ease 0 800 = 8"
proof -
  have a: "binary64 (800 - 0) = 800"
    using double_800 by (simp add: double_def)
  have "binary64 (800 * (5764607523034235 / 2 ^ 59)) =
      of_int (roundEven ((800 * (5764607523034235 / 2 ^ 59)) / 2 powr of_int (3 - 52)))
        * 2 powr of_int (3 - 52)"
    by (rule binary64_eval) simp_all
  also have "2 powr of_int (3 - 52) = (1 / 2 ^ 49 :: real)"
    by (simp add: powr_minus inverse_eq_divide)
  also have "roundEven ((800 * (5764607523034235 / 2 ^ 59)) / (1 / 2 ^ 49)) = 2 ^ 52"
    by (simp add: roundEven_def Let_def)
  finally have b: "binary64 (800 * (5764607523034235 / 2 ^ 59)) = 8"
    by simp
  have c: "binary64 (0 + 8) = 8"
    using double_8 by (simp add: double_def)
  show ?thesis
    unfolding ease_def a hundredth_value b c ..
qed

lemma double_minus: "double x \<Longrightarrow> double (- x)"
  by (simp add: double_def binary64_minus)

lemma ease_between:
  assumes "double c" "double t"
  shows "(c \<le> t \<longrightarrow> c \<le> ease c t \<and> ease c t \<le> t) \<and>
         (t \<le> c \<longrightarrow> t \<le> ease c t \<and> ease c t \<le> c)"
  using assms ease_up [of c t] ease_down [of c t] by (simp add: double_def)

lemma useFrame_position:
  assumes "camera_position s = (cx, cy, cz)" "mouseRef s = (mx, my, mz)"
  shows "camera_position (useFrame s) = (ease cx mx, ease cy (- my), cz)"
  using assms by (simp add: useFrame_def Let_def)

lemma distance_le:
  assumes "\<bar>a' - m\<bar> \<le> \<bar>a - m\<bar>" "\<bar>b' - n\<bar> \<le> \<bar>b - n\<bar>"
  shows "distance (a', b') (m, n) \<le> distance (a, b) (m, n)"
proof -
  have "(a' - m)\<^sup>2 \<le> (a - m)\<^sup>2" "(b' - n)\<^sup>2 \<le> (b - n)\<^sup>2"
    using assms by (simp_all only: abs_le_square_iff)
  then have "(a' - m)\<^sup>2 + (b' - n)\<^sup>2 \<le> (a - m)\<^sup>2 + (b - n)\<^sup>2"
    by (rule add_mono)
  then show ?thesis
    by (simp add: distance_def)
qed

text \<open>
  C4 (as amended). With the pointer target the frame reads, one frame sets the camera
  on each axis to the rounded value of \<open>c + (t - c) * 0.01\<close>, where \<open>t\<close> is \<open>target.x\<close>
  on the x axis and \<open>- target.y\<close> on the y axis. That value lies between where the
  camera was and the target: the camera never passes the target, so the distance to
  the target never grows, on either axis or in the plane of the two, and a camera at
  the target stays there. The frame leaves the target and the camera's z as they are.
\<close>

theorem camera_ease_no_overshoot:
  assumes "camera_position s = (cx, cy, cz)" "mouseRef s = (mx, my, mz)"
    and "double cx" "double cy" "double mx" "double my"
    and "camera_position (useFrame s) = (cx', cy', cz')"
  shows "mouseRef (useFrame s) = mouseRef s \<and> cz' = cz \<and>
         cx' = binary64 (cx + binary64 (binary64 (mx - cx) * binary64 (1 / 100))) \<and>
         cy' = binary64 (cy + binary64 (binary64 (- my - cy) * binary64 (1 / 100))) \<and>
         (cx \<le> mx \<longrightarrow> cx \<le> cx' \<and> cx' \<le> mx) \<and> (mx \<le> cx \<longrightarrow> mx \<le> cx' \<and> cx' \<le> cx) \<and>
         (cy \<le> - my \<longrightarrow> cy \<le> cy' \<and> cy' \<le> - my) \<and>
         (- my \<le> cy \<longrightarrow> - my \<le> cy' \<and> cy' \<le> cy) \<and>
         \<bar>cx' - mx\<bar> \<le> \<bar>cx - mx\<bar> \<and> \<bar>cy' - (- my)\<bar> \<le> \<bar>cy - (- my)\<bar> \<and>
         distance (cx', cy') (mx, - my) \<le> distance (cx, cy) (mx, - my) \<and>
         (cx = mx \<longrightarrow> cx' = mx) \<and> (cy = - my \<longrightarrow> cy' = - my)"
proof -
  have x: "cx' = ease cx mx" and y: "cy' = ease cy (- my)" and z: "cz' = cz"
    using useFrame_position [OF assms(1,2)] assms(7) by simp_all
  have m: "mouseRef (useFrame s) = mouseRef s"
    using assms(1,2) by (simp add: useFrame_def Let_def)
  have betx: "(cx \<le> mx \<longrightarrow> cx \<le> cx' \<and> cx' \<le> mx) \<and> (mx \<le> cx \<longrightarrow> mx \<le> cx' \<and> cx' \<le> cx)"
    unfolding x using assms(3,5) by (rule ease_between)
  have bety: "(cy \<le> - my \<longrightarrow> cy \<le> cy' \<and> cy' \<le> - my) \<and>
            (- my \<le> cy \<longrightarrow> - my \<le> cy' \<and> cy' \<le> cy)"
    unfolding y using assms(4) double_minus [OF assms(6)] by (rule ease_between)
  have ax: "\<bar>cx' - mx\<bar> \<le> \<bar>cx - mx\<bar>"
    using betx by argo
  have ay: "\<bar>cy' - (- my)\<bar> \<le> \<bar>cy - (- my)\<bar>"
    using bety by argo
  have d: "distance (cx', cy') (mx, - my) \<le> distance (cx, cy) (mx, - my)"
    using ax ay by (rule distance_le)
  have fx: "cx = mx \<longrightarrow> cx' = mx"
    using betx by argo
  have fy: "cy = - my \<longrightarrow> cy' = - my"
    using bety by argo
  have ex: "cx' = binary64 (cx + binary64 (binary64 (mx - cx) * binary64 (1 / 100)))"
    unfolding x ease_def ..
  have ey: "cy' = binary64 (cy + binary64 (binary64 (- my - cy) * binary64 (1 / 100)))"
    unfolding y ease_def ..
  show ?thesis
    using m z ex ey betx bety ax ay d fx fy by blast
qed

text \<open>
  The witness is a frame with the camera at \<open>(0, 8 - 50 / 2\<^sup>5\<^sup>0)\<close> and the target at
  \<open>(800, 8)\<close>: on the x axis the camera moves from 0 to 8, on the y axis it is not at
  the target and stays where it is.
\<close>

theorem camera_ease_no_overshoot_witness:
  "camera_position
     (initialScene\<lparr>camera_position := (0, 8 - 50 / 2 ^ 50, 500), mouseRef := (800, - 8, 1)\<rparr>)
     = (0, 8 - 50 / 2 ^ 50, 500) \<and>
   mouseRef
     (initialScene\<lparr>camera_position := (0, 8 - 50 / 2 ^ 50, 500), mouseRef := (800, - 8, 1)\<rparr>)
     = (800, - 8, 1) \<and>
   double 0 \<and> double (8 - 50 / 2 ^ 50) \<and> double 800 \<and> double (- 8) \<and>
   camera_position (useFrame
     (initialScene\<lparr>camera_position := (0, 8 - 50 / 2 ^ 50, 500), mouseRef := (800, - 8, 1)\<rparr>))
     = (8, 8 - 50 / 2 ^ 50, 500) \<and>
   (0 :: real) \<le> 8 \<and> (8 :: real) \<le> 800 \<and>
   (8 - 50 / 2 ^ 50 :: real) \<le> - (- 8) \<and>
   \<bar>8 - 800\<bar> \<le> \<bar>0 - (800 :: real)\<bar>"
proof -
  let ?s = "initialScene\<lparr>camera_position := (0, 8 - 50 / 2 ^ 50, 500), mouseRef := (800, - 8, 1)\<rparr>"
  have c: "camera_position ?s = (0, 8 - 50 / 2 ^ 50, 500)" and m: "mouseRef ?s = (800, - 8, 1)"
    by simp_all
  have d8: "double (- 8)"
    using double_8 by (rule double_minus)
  have e2: "ease (8 - 50 / 2 ^ 50) (- (- 8)) = 8 - 50 / 2 ^ 50"
    by (simp only: minus_minus ease_stalls)
  have f: "camera_position (useFrame ?s) = (8, 8 - 50 / 2 ^ 50, 500)"
    unfolding useFrame_position [OF c m] ease_moves e2 ..
  show ?thesis
    using c m f double_stalled double_0 double_800 d8
      camera_ease_no_overshoot [OF c m double_0 double_stalled double_800 d8 f]
    by simp
qed

text \<open>
  C4 as stated fails with the camera at \<open>x = 8 - 50 / 2\<^sup>5\<^sup>0\<close> and the target at
  \<open>x = 8\<close>: the camera is not at the target, and after the frame its distance to the
  target on that axis is what it was, not less.
\<close>

theorem camera_ease_not_strict:
  "fst (camera_position
     (initialScene\<lparr>camera_position := (8 - 50 / 2 ^ 50, 0, 500), mouseRef := (8, 0, 1)\<rparr>))
     \<noteq> fst (mouseRef
     (initialScene\<lparr>camera_position := (8 - 50 / 2 ^ 50, 0, 500), mouseRef := (8, 0, 1)\<rparr>)) \<and>
   \<not> \<bar>fst (camera_position (useFrame
          (initialScene\<lparr>camera_position := (8 - 50 / 2 ^ 50, 0, 500), mouseRef := (8, 0, 1)\<rparr>)))
        - fst (mouseRef
          (initialScene\<lparr>camera_position := (8 - 50 / 2 ^ 50, 0, 500), mouseRef := (8, 0, 1)\<rparr>))\<bar>
      < \<bar>fst (camera_position
          (initialScene\<lparr>camera_position := (8 - 50 / 2 ^ 50, 0, 500), mouseRef := (8, 0, 1)\<rparr>))
        - fst (mouseRef
          (initialScene\<lparr>camera_position := (8 - 50 / 2 ^ 50, 0, 500), mouseRef := (8, 0, 1)\<rparr>))\<bar>"
proof -
  let ?s = "initialScene\<lparr>camera_position := (8 - 50 / 2 ^ 50, 0, 500), mouseRef := (8, 0, 1)\<rparr>"
  have c: "camera_position ?s = (8 - 50 / 2 ^ 50, 0, 500)" and m: "mouseRef ?s = (8, 0, 1)"
    by simp_all
  have e0: "ease 0 (- 0) = 0"
    by (simp add: ease_def binary64_zero)
  have f: "camera_position (useFrame ?s) = (8 - 50 / 2 ^ 50, 0, 500)"
    unfolding useFrame_position [OF c m] ease_stalls e0 ..
  show ?thesis
    unfolding f c m by simp
qed

text \<open>
  The scene starts with the camera at the target on both axes, and a frame leaves it
  there.
\<close>

lemma useFrame_initialScene:
  "camera_position (useFrame initialScene) = camera_position initialScene"
  by (simp add: useFrame_def initialScene_def ease_def binary64_zero Let_def)

section \<open>Properties of the video playback\<close>

lemma addEventListener_registered: "(type, h) \<in> set (addEventListener type h ls)"
  by (simp add: addEventListener_def)

lemma removeEventListener_gone: "(type, h) \<notin> set (removeEventListener type h ls)"
  by (simp add: removeEventListener_def)

text \<open>
  A tree with the \<^verbatim>\<open>div\<close> does not commit, and a tree without it has no text: no state
  of the component puts overlay text on the screen.
\<close>

lemma commit_with_message:
  assumes "videoLoadError s = Some m" "m \<noteq> []"
  shows "commit (render s) = Inl NotInNamespace"
  using assms by (simp add: commit_def render_def in_THREE_namespace_def)

lemma commit_without_message:
  assumes "videoLoadError s = None"
  shows "commit (render s) = Inr [Host ''color'' [], Component ''Environment'', Host ''points'' []]"
  using assms by (simp add: commit_def render_def in_THREE_namespace_def)

lemma overlay_never: "overlay s = None"
proof (cases "videoLoadError s")
  case None
  then show ?thesis
    by (simp add: overlay_def commit_without_message)
next
  case (Some m)
  then show ?thesis
    by (cases "m = []")
      (simp_all add: overlay_def commit_def render_def in_THREE_namespace_def)
qed

lemma msgAutoplayBlocked_nonempty: "msgAutoplayBlocked \<noteq> []"
  by (simp add: msgAutoplayBlocked_def)

lemma msgClickFailed_1_nonempty: "msgClickFailed_1 \<noteq> []"
  by (simp add: msgClickFailed_1_def)

lemma msgLoadFailed_1_nonempty: "msgLoadFailed_1 \<noteq> []"
  by (simp add: msgLoadFailed_1_def)

lemma numberToString_4: "numberToString 4 = lit ''4''"
  by (simp add: numberToString.simps lit_def)

text \<open>
  The state the component is in once it is mounted with the texture three.js
  constructs and the controls untouched: the video element with its two listeners is
  in the document and paused, the texture is bound, \<^verbatim>\<open>play()\<close> has been called once,
  and the document holds the \<^verbatim>\<open>mousemove\<close> listener.
\<close>

lemma mount_default:
  "mount newVideoTexture_default controlDefaults =
     initialScene
       \<lparr>videoRef := Some
          \<lparr>src = videoURL, loop = True, muted = True, crossOrigin = Some ''anonymous'',
           playsInline = True, style_display = ''none'', paused = True, error = None,
           video_listeners = [(''error'', L_handleVideoError), (''play'', L_handleVideoPlay)]\<rparr>,
        textureRef := Some
          \<lparr>minFilter = NearestFilter, magFilter = LinearFilter, generateMipmaps = False,
           disposed = False\<rparr>,
        material_map := MapVideoTexture,
        material_uniforms := controlDefaults,
        document_listeners := [(''mousemove'', L_handleMouseMove)],
        body_contains_video := True,
        play_calls := 1\<rparr>"
  by (simp add: mount_def mouseEffect_setup_def uniformsEffect_def videoEffect_setup_def
      initialScene_def createElement_video_def addEventListener_def
      newVideoTexture_default_def controlDefaults_def materialUniforms_def Let_def)

text \<open>
  The callbacks of the two promises and \<^verbatim>\<open>playOnClick\<close>, on the state variables and
  the listeners. When the promise of the first \<^verbatim>\<open>play()\<close> rejects, the state holds the
  message that autoplay is blocked, the video does not count as playing, and
  \<^verbatim>\<open>playOnClick\<close> is registered for clicks on the document. A click on the document
  while the video is paused calls \<^verbatim>\<open>play()\<close> once more. When that promise resolves,
  the video counts as playing, the message is cleared and \<^verbatim>\<open>playOnClick\<close> is no longer
  registered. When it rejects, the state holds the message that the video could not be
  played even after the click, and \<^verbatim>\<open>playOnClick\<close> stays registered.
\<close>

lemma playback_callbacks:
  assumes "videoRef s = Some v" "paused v"
  shows
    "(let blocked = initialPlay_catch err s;
          clicked = blocked\<lparr>play_calls := play_calls blocked + 1\<rparr>;
          resumed = playOnClick_then clicked;
          failed = playOnClick_catch clickError clicked
      in videoLoadError blocked = Some msgAutoplayBlocked \<and>
         \<not> videoPlaying blocked \<and>
         (''click'', L_playOnClick) \<in> set (document_listeners blocked) \<and>
         document_click blocked = Inr clicked \<and>
         videoPlaying resumed \<and>
         videoLoadError resumed = None \<and>
         (''click'', L_playOnClick) \<notin> set (document_listeners resumed) \<and>
         videoLoadError failed =
           Some (msgClickFailed_1
                 @ (case exn_message clickError of
                      None \<Rightarrow> msgUnknown
                    | Some m \<Rightarrow> if m = [] then msgUnknown else m)
                 @ lit ''.'') \<and>
         \<not> videoPlaying failed \<and>
         (''click'', L_playOnClick) \<in> set (document_listeners failed) \<and>
         document_click failed = Inr (failed\<lparr>play_calls := play_calls failed + 1\<rparr>))"
proof -
  define blocked where "blocked = initialPlay_catch err s"
  define clicked where "clicked = blocked\<lparr>play_calls := play_calls blocked + 1\<rparr>"
  define resumed where "resumed = playOnClick_then clicked"
  define failed where "failed = playOnClick_catch clickError clicked"
  have b1: "videoLoadError blocked = Some msgAutoplayBlocked"
    and b2: "\<not> videoPlaying blocked"
    and b3: "videoRef blocked = Some v"
    by (simp_all add: blocked_def initialPlay_catch_def assms)
  have b4: "(''click'', L_playOnClick) \<in> set (document_listeners blocked)"
    by (simp add: blocked_def initialPlay_catch_def addEventListener_registered)
  have c1: "document_click blocked = Inr clicked"
    using b3 b4 assms(2) by (simp add: document_click_def playOnClick_def clicked_def)
  have r1: "videoPlaying resumed" and r2: "videoLoadError resumed = None"
    by (simp_all add: resumed_def playOnClick_then_def)
  have r4: "(''click'', L_playOnClick) \<notin> set (document_listeners resumed)"
    by (simp add: resumed_def playOnClick_then_def removeEventListener_gone)
  have f1: "videoLoadError failed =
           Some (msgClickFailed_1
                 @ (case exn_message clickError of
                      None \<Rightarrow> msgUnknown
                    | Some m \<Rightarrow> if m = [] then msgUnknown else m)
                 @ lit ''.'')"
    by (simp add: failed_def playOnClick_catch_def Let_def)
  have f3: "\<not> videoPlaying failed"
    using b2 by (simp add: failed_def playOnClick_catch_def clicked_def Let_def)
  have f4: "(''click'', L_playOnClick) \<in> set (document_listeners failed)"
    using b4 by (simp add: failed_def playOnClick_catch_def clicked_def Let_def)
  have f5: "videoRef failed = Some v"
    using b3 by (simp add: failed_def playOnClick_catch_def clicked_def Let_def)
  have f6: "document_click failed = Inr (failed\<lparr>play_calls := play_calls failed + 1\<rparr>)"
    using f4 f5 assms(2) by (simp add: document_click_def playOnClick_def)
  show ?thesis
    unfolding Let_def
    using b1 b2 b4 c1 r1 r2 r4 f1 f3 f4 f6
    unfolding blocked_def clicked_def resumed_def failed_def
    by blast
qed

text \<open>
  C5 fails on the code. Mount the scene and let the promise of the first \<^verbatim>\<open>play()\<close>
  reject: the state holds the message that autoplay is blocked and \<^verbatim>\<open>playOnClick\<close> is
  registered, but the tree the component then returns has the \<^verbatim>\<open>div\<close> of the overlay
  in it, the commit throws, and no overlay is on the screen.
\<close>

theorem blocked_overlay_not_rendered:
  "videoLoadError (initialPlay_catch \<lparr>exn_message = None\<rparr>
      (mount newVideoTexture_default controlDefaults)) = Some msgAutoplayBlocked \<and>
   document_listeners (initialPlay_catch \<lparr>exn_message = None\<rparr>
      (mount newVideoTexture_default controlDefaults)) =
     [(''mousemove'', L_handleMouseMove), (''click'', L_playOnClick)] \<and>
   render (initialPlay_catch \<lparr>exn_message = None\<rparr>
      (mount newVideoTexture_default controlDefaults)) =
     [Host ''color'' [], Component ''Environment'', Host ''points'' [],
      Host ''div'' [Host ''p'' [TextNode msgAutoplayBlocked]]] \<and>
   commit (render (initialPlay_catch \<lparr>exn_message = None\<rparr>
      (mount newVideoTexture_default controlDefaults))) = Inl NotInNamespace \<and>
   overlay (initialPlay_catch \<lparr>exn_message = None\<rparr>
      (mount newVideoTexture_default controlDefaults)) = None"
proof -
  let ?s = "initialPlay_catch \<lparr>exn_message = None\<rparr>
              (mount newVideoTexture_default controlDefaults)"
  have v: "videoLoadError ?s = Some msgAutoplayBlocked"
    by (simp add: initialPlay_catch_def)
  have l: "document_listeners ?s =
             [(''mousemove'', L_handleMouseMove), (''click'', L_playOnClick)]"
    by (simp add: mount_default initialPlay_catch_def addEventListener_def)
  have r: "render ?s =
     [Host ''color'' [], Component ''Environment'', Host ''points'' [],
      Host ''div'' [Host ''p'' [TextNode msgAutoplayBlocked]]]"
    by (simp add: render_def v msgAutoplayBlocked_nonempty)
  have c: "commit (render ?s) = Inl NotInNamespace"
    using v msgAutoplayBlocked_nonempty by (rule commit_with_message)
  show ?thesis
    using v l r c overlay_never [of ?s] by simp
qed

text \<open>
  The handler is not one-shot either: after a click whose retry rejects, a second
  click calls \<^verbatim>\<open>play()\<close> a third time.
\<close>

lemma retry_handler_fires_again:
  "document_click (playOnClick_catch \<lparr>exn_message = None\<rparr>
     ((initialPlay_catch \<lparr>exn_message = None\<rparr>
         (mount newVideoTexture_default controlDefaults))\<lparr>play_calls := 2\<rparr>)) =
   Inr ((playOnClick_catch \<lparr>exn_message = None\<rparr>
     ((initialPlay_catch \<lparr>exn_message = None\<rparr>
         (mount newVideoTexture_default controlDefaults))\<lparr>play_calls := 2\<rparr>))
        \<lparr>play_calls := 3\<rparr>)"
  by (simp add: mount_default initialPlay_catch_def playOnClick_catch_def document_click_def
      playOnClick_def addEventListener_def Let_def)

text \<open>
  C9. A click on the document while \<^verbatim>\<open>playOnClick\<close> is registered and the video is not
  paused only takes \<^verbatim>\<open>playOnClick\<close> off the document: \<^verbatim>\<open>play()\<close> is not called, and
  the playback state and the overlay are what they were.
\<close>

theorem click_while_playing:
  assumes "(''click'', L_playOnClick) \<in> set (document_listeners s)"
    and "videoRef s = Some v" "\<not> paused v"
  shows
    "document_click s =
       Inr (s\<lparr>document_listeners :=
               removeEventListener ''click'' L_playOnClick (document_listeners s)\<rparr>) \<and>
     (case document_click s of
        Inl e \<Rightarrow> False
      | Inr s' \<Rightarrow>
          (''click'', L_playOnClick) \<notin> set (document_listeners s') \<and>
          play_calls s' = play_calls s \<and>
          videoLoadError s' = videoLoadError s \<and>
          videoPlaying s' = videoPlaying s \<and>
          overlay s' = overlay s \<and>
          videoRef s' = videoRef s)"
proof -
  have c: "document_click s =
       Inr (s\<lparr>document_listeners :=
               removeEventListener ''click'' L_playOnClick (document_listeners s)\<rparr>)"
    using assms by (simp add: document_click_def playOnClick_def)
  show ?thesis
    unfolding c by (simp add: removeEventListener_gone overlay_def render_def)
qed

theorem click_while_playing_witness:
  "(''click'', L_playOnClick) \<in> set (document_listeners
      (browser_sets_paused False (initialPlay_catch \<lparr>exn_message = None\<rparr>
         (mount newVideoTexture_default controlDefaults)))) \<and>
   \<not> paused (the (videoRef
      (browser_sets_paused False (initialPlay_catch \<lparr>exn_message = None\<rparr>
         (mount newVideoTexture_default controlDefaults))))) \<and>
   document_click
      (browser_sets_paused False (initialPlay_catch \<lparr>exn_message = None\<rparr>
         (mount newVideoTexture_default controlDefaults))) =
     Inr ((browser_sets_paused False (initialPlay_catch \<lparr>exn_message = None\<rparr>
         (mount newVideoTexture_default controlDefaults)))
          \<lparr>document_listeners := [(''mousemove'', L_handleMouseMove)]\<rparr>)"
proof -
  let ?s = "browser_sets_paused False (initialPlay_catch \<lparr>exn_message = None\<rparr>
              (mount newVideoTexture_default controlDefaults))"
  have l: "document_listeners ?s =
             [(''mousemove'', L_handleMouseMove), (''click'', L_playOnClick)]"
    by (simp add: mount_default initialPlay_catch_def browser_sets_paused_def
        addEventListener_def)
  have r: "(''click'', L_playOnClick) \<in> set (document_listeners ?s)"
    by (simp add: l)
  have v: "videoRef ?s = Some (the (videoRef ?s))" and p: "\<not> paused (the (videoRef ?s))"
    by (simp_all add: mount_default initialPlay_catch_def browser_sets_paused_def)
  show ?thesis
    using r p click_while_playing [OF r v p]
    by (simp add: l removeEventListener_def)
qed

section \<open>Properties of the error overlay\<close>

lemma handleVideoError_text:
  assumes "video_error s = Some e" "code e \<noteq> 0" "message e \<noteq> []"
  shows "videoLoadError (handleVideoError s) =
           Some (msgLoadFailed_1 @ numberToString (code e) @ msgLoadFailed_2 @ message e
                 @ msgLoadFailed_3)"
  using assms by (simp add: handleVideoError_def Let_def)

lemma sublist_middle_1: "sublist xs (a @ xs @ b)"
  by (rule sublist_appendI)

lemma sublist_middle_2: "sublist ys (a @ xs @ b @ ys @ c)"
  using sublist_appendI [of ys "a @ xs @ b" c] by simp

text \<open>
  The text \<^verbatim>\<open>handleVideoError\<close> stores when the video fires its \<^verbatim>\<open>error\<close> event while
  \<^verbatim>\<open>video.error\<close> has code 4 and the message "format not supported": the text of line
  170 with "4" in the place of the code and "format not supported" in the place of the
  message, so both are substrings of it.
\<close>

lemma video_error_text:
  assumes "videoRef s = Some v"
    and "(''error'', L_handleVideoError) \<in> set (video_listeners v)"
    and "error v = Some \<lparr>code = 4, message = lit ''format not supported''\<rparr>"
  shows
    "videoLoadError (video_fires_error s) =
       Some (msgLoadFailed_1 @ lit ''4'' @ msgLoadFailed_2 @ lit ''format not supported''
             @ msgLoadFailed_3) \<and>
     sublist (lit ''4'') (the (videoLoadError (video_fires_error s))) \<and>
     sublist (lit ''format not supported'') (the (videoLoadError (video_fires_error s)))"
proof -
  let ?e = "\<lparr>code = 4, message = lit ''format not supported''\<rparr>"
  let ?t = "msgLoadFailed_1 @ lit ''4'' @ msgLoadFailed_2 @ lit ''format not supported''
            @ msgLoadFailed_3"
  have f: "video_fires_error s = handleVideoError s"
    using assms(1,2) by (simp add: video_fires_error_def)
  have e: "video_error s = Some ?e"
    using assms(1,3) by (simp add: video_error_def)
  have "videoLoadError (handleVideoError s) =
          Some (msgLoadFailed_1 @ numberToString (code ?e) @ msgLoadFailed_2 @ message ?e
                @ msgLoadFailed_3)"
    using e by (rule handleVideoError_text) (simp_all add: lit_def)
  then have t: "videoLoadError (video_fires_error s) = Some ?t"
    by (simp add: f numberToString_4)
  show ?thesis
    unfolding t option.sel
    using sublist_middle_1 [of "lit ''4''" msgLoadFailed_1]
      sublist_middle_2 [of "lit ''format not supported''" msgLoadFailed_1 "lit ''4''"
        msgLoadFailed_2 msgLoadFailed_3]
    by simp
qed

text \<open>
  C7 fails on the code. Mount the scene, let the browser set \<^verbatim>\<open>video.error\<close> to code 4
  with the message "format not supported", and fire the \<^verbatim>\<open>error\<close> event: the state
  holds the text with both in it, but the tree the component then returns has the
  \<^verbatim>\<open>div\<close> of the overlay in it, the commit throws, and no overlay text is on the
  screen.
\<close>

theorem error_overlay_not_rendered:
  "videoLoadError (video_fires_error
      (browser_sets_error \<lparr>code = 4, message = lit ''format not supported''\<rparr>
         (mount newVideoTexture_default controlDefaults))) =
     Some (msgLoadFailed_1 @ lit ''4'' @ msgLoadFailed_2 @ lit ''format not supported''
           @ msgLoadFailed_3) \<and>
   commit (render (video_fires_error
      (browser_sets_error \<lparr>code = 4, message = lit ''format not supported''\<rparr>
         (mount newVideoTexture_default controlDefaults)))) = Inl NotInNamespace \<and>
   overlay (video_fires_error
      (browser_sets_error \<lparr>code = 4, message = lit ''format not supported''\<rparr>
         (mount newVideoTexture_default controlDefaults))) = None"
proof -
  let ?s = "browser_sets_error \<lparr>code = 4, message = lit ''format not supported''\<rparr>
              (mount newVideoTexture_default controlDefaults)"
  let ?t = "msgLoadFailed_1 @ lit ''4'' @ msgLoadFailed_2 @ lit ''format not supported''
            @ msgLoadFailed_3"
  have v: "videoRef ?s = Some (the (videoRef ?s))"
    and r: "(''error'', L_handleVideoError) \<in> set (video_listeners (the (videoRef ?s)))"
    and e: "error (the (videoRef ?s)) =
              Some \<lparr>code = 4, message = lit ''format not supported''\<rparr>"
    by (simp_all add: mount_default browser_sets_error_def)
  have t: "videoLoadError (video_fires_error ?s) = Some ?t"
    using video_error_text [OF v r e] by blast
  have c: "commit (render (video_fires_error ?s)) = Inl NotInNamespace"
    using t by (rule commit_with_message) (simp add: msgLoadFailed_1_nonempty)
  show ?thesis
    using t c overlay_never [of "video_fires_error ?s"] by simp
qed

section \<open>Properties of the video texture\<close>

text \<open>
  C8 (as amended). The effect sets the minification filter of the video texture to
  nearest and turns its mipmap generation off. It does not touch the magnification
  filter, which stays what the constructor made it.
\<close>

theorem video_texture_filters:
  "textureRef (videoEffect_setup newVideoTexture s) =
     Some (newVideoTexture\<lparr>minFilter := NearestFilter, generateMipmaps := False\<rparr>) \<and>
   minFilter (the (textureRef (videoEffect_setup newVideoTexture s))) = NearestFilter \<and>
   generateMipmaps (the (textureRef (videoEffect_setup newVideoTexture s))) = False \<and>
   magFilter (the (textureRef (videoEffect_setup newVideoTexture s))) =
     magFilter newVideoTexture"
  by (simp add: videoEffect_setup_def Let_def)

text \<open>
  C8 as stated fails: with the texture three.js constructs, the magnification filter
  of the configured texture is linear, so not all sampling is interpolation-free.
\<close>

theorem video_texture_magnification_linear:
  "magFilter (the (textureRef (videoEffect_setup newVideoTexture_default initialScene)))
     = LinearFilter \<and>
   magFilter (the (textureRef (videoEffect_setup newVideoTexture_default initialScene)))
     \<noteq> NearestFilter"
  by (simp add: videoEffect_setup_def newVideoTexture_default_def Let_def)

section \<open>Properties of the teardown\<close>

text \<open>
  What unmounting does in any state in which the video element is in the document:
  the element has no listener of the component left and is out of the document, the
  texture is disposed, and the \<^verbatim>\<open>mousemove\<close> listener is off the document.
\<close>

lemma unmount_releases:
  assumes "videoRef s = Some v" "body_contains_video s" "textureRef s = Some t"
  shows "videoRef (unmount s) =
           Some (v\<lparr>video_listeners :=
                    removeEventListener ''play'' L_handleVideoPlay
                      (removeEventListener ''error'' L_handleVideoError (video_listeners v))\<rparr>)"
    and "\<not> body_contains_video (unmount s)"
    and "textureRef (unmount s) = Some (t\<lparr>disposed := True\<rparr>)"
    and "(''mousemove'', L_handleMouseMove) \<notin> set (document_listeners (unmount s))"
  using assms
  by (simp_all add: unmount_def mouseEffect_cleanup_def videoEffect_cleanup_def Let_def
      removeEventListener_gone)

text \<open>
  Unmounting never takes \<^verbatim>\<open>playOnClick\<close> off the document: no cleanup names it.
\<close>

lemma unmount_keeps_click_listener:
  "(''click'', L_playOnClick) \<in> set (document_listeners (unmount s)) \<longleftrightarrow>
   (''click'', L_playOnClick) \<in> set (document_listeners s)"
  by (simp add: unmount_def mouseEffect_cleanup_def videoEffect_cleanup_def Let_def
      removeEventListener_def split: option.splits)

text \<open>
  C6 fails on the code. Mount the scene, let the first \<^verbatim>\<open>play()\<close> reject, and unmount
  without a click: the video element is out of the document with no listener left and
  the texture is disposed, but \<^verbatim>\<open>playOnClick\<close> is still registered on the document.
\<close>

theorem click_listener_survives_unmount:
  "document_listeners
     (unmount (initialPlay_catch \<lparr>exn_message = None\<rparr>
        (mount newVideoTexture_default controlDefaults))) = [(''click'', L_playOnClick)] \<and>
   video_listeners (the (videoRef
     (unmount (initialPlay_catch \<lparr>exn_message = None\<rparr>
        (mount newVideoTexture_default controlDefaults))))) = [] \<and>
   body_contains_video
     (unmount (initialPlay_catch \<lparr>exn_message = None\<rparr>
        (mount newVideoTexture_default controlDefaults))) = False \<and>
   disposed (the (textureRef
     (unmount (initialPlay_catch \<lparr>exn_message = None\<rparr>
        (mount newVideoTexture_default controlDefaults))))) = True"
  by (simp add: mount_default initialPlay_catch_def unmount_def mouseEffect_cleanup_def
      videoEffect_cleanup_def addEventListener_def removeEventListener_def
      initialScene_def Let_def)

text \<open>
  The same listener is left behind when the scene is unmounted before the promise of
  the first \<^verbatim>\<open>play()\<close> rejects: the rejection registers it after the teardown.
\<close>

lemma click_listener_registered_after_unmount:
  "(''click'', L_playOnClick) \<in> set (document_listeners
     (initialPlay_catch err (unmount s)))"
  by (simp add: initialPlay_catch_def addEventListener_registered)

end
